theory Spec2Isabelle
  imports Complex_Main "HOL-Library.Sublist"
begin

section \<open>Data model of \<^verbatim>\<open>qloo-client.ts\<close>\<close>

text \<open>
  JavaScript numbers are modelled as reals: comparisons, sums and quotients are exact,
  and \<^verbatim>\<open>NaN\<close> and the infinities are outside the model. An optional field
  (\<^verbatim>\<open>affinity?: number\<close>) is an \<open>option\<close>, \<open>None\<close> standing for
  \<^verbatim>\<open>undefined\<close>. A parsed JSON document is a value of \<open>json\<close>; an object is
  the list of its own properties.
\<close>

datatype json =
    JNull
  | JBool bool
  | JNum real
  | JStr string
  | JArr "json list"
  | JObj "(string \<times> json) list"

text \<open>\<^verbatim>\<open>interface QlooEntity\<close>; the field \<^verbatim>\<open>id\<close> is \<open>id_of\<close> here.\<close>

record QlooEntity =
  id_of :: string
  name :: string
  type :: string
  affinity :: "real option"
  properties :: "json option"

text \<open>\<^verbatim>\<open>interface ProjectContext\<close>.\<close>

record ProjectContext =
  projectType :: string
  goalCategory :: string
  userLocation :: "string option"
  timeframe :: "string option"
  budget :: "string option"

text \<open>The \<^verbatim>\<open>ENTITY_TYPES\<close> table.\<close>

definition ARTIST :: string where "ARTIST = ''urn:entity:artist''"
definition BOOK :: string where "BOOK = ''urn:entity:book''"
definition BRAND :: string where "BRAND = ''urn:entity:brand''"
definition DESTINATION :: string where "DESTINATION = ''urn:entity:destination''"
definition MOVIE :: string where "MOVIE = ''urn:entity:movie''"
definition PERSON :: string where "PERSON = ''urn:entity:person''"
definition PLACE :: string where "PLACE = ''urn:entity:place''"
definition PODCAST :: string where "PODCAST = ''urn:entity:podcast''"
definition TV_SHOW :: string where "TV_SHOW = ''urn:entity:tv_show''"
definition VIDEO_GAME :: string where "VIDEO_GAME = ''urn:entity:video_game''"

subsection \<open>JavaScript idioms used by the client\<close>

text \<open>\<^verbatim>\<open>xs.join(sep)\<close> on an array of strings.\<close>

fun join :: "string \<Rightarrow> string list \<Rightarrow> string" where
  "join sep [] = []"
| "join sep [x] = x"
| "join sep (x # y # ys) = x @ sep @ join sep (y # ys)"

text \<open>\<^verbatim>\<open>xs.slice(0, n)\<close> for \<open>n \<ge> 0\<close>: the first at most \<open>n\<close> elements.\<close>

definition slice0 :: "nat \<Rightarrow> 'a list \<Rightarrow> 'a list" where
  "slice0 n xs = take n xs"

text \<open>\<^verbatim>\<open>x || d\<close> on an optional number: \<^verbatim>\<open>undefined\<close> and \<^verbatim>\<open>0\<close> are falsy.\<close>

definition num_or :: "real option \<Rightarrow> real \<Rightarrow> real" where
  "num_or x d = (case x of None \<Rightarrow> d | Some v \<Rightarrow> if v = 0 then d else v)"

text \<open>\<^verbatim>\<open>s.startsWith(p)\<close>.\<close>

definition startsWith :: "string \<Rightarrow> string \<Rightarrow> bool" where
  "startsWith s p = prefix p s"

text \<open>
  \<^verbatim>\<open>table[key]\<close> for an object literal \<^verbatim>\<open>table\<close>. The literal inherits from
  \<^verbatim>\<open>Object.prototype\<close>, so a key that is not one of its own but names a property of
  \<^verbatim>\<open>Object.prototype\<close> reads that property: a function, or for \<^verbatim>\<open>__proto__\<close> the
  prototype object itself. Such a value is truthy, is not a string and is not iterable.
  Any other key reads \<^verbatim>\<open>undefined\<close>, here \<open>None\<close>.
\<close>

definition objectPrototypeKeys :: "string list" where
  "objectPrototypeKeys =
     [''constructor'', ''hasOwnProperty'', ''isPrototypeOf'', ''propertyIsEnumerable'',
      ''toLocaleString'', ''toString'', ''valueOf'', ''__proto__'',
      ''__defineGetter__'', ''__defineSetter__'', ''__lookupGetter__'', ''__lookupSetter__'']"

datatype 'a member = Own 'a | Inherited string

definition readTable :: "(string \<times> 'a) list \<Rightarrow> string \<Rightarrow> 'a member option" where
  "readTable table key =
     (case map_of table key of
        Some v \<Rightarrow> Some (Own v)
      | None \<Rightarrow> if key \<in> set objectPrototypeKeys then Some (Inherited key) else None)"

section \<open>Affinity Scorer\<close>

text \<open>
  \<^verbatim>\<open>CulturalGoalArchitect.calculateAverageAffinity\<close>: the early return on an empty
  array, then \<^verbatim>\<open>reduce\<close> from \<^verbatim>\<open>0\<close> as a left fold, then the division.
\<close>

definition calculateAverageAffinity :: "QlooEntity list \<Rightarrow> real" where
  "calculateAverageAffinity entities =
     (if length entities = 0 then 0
      else (let total = foldl (\<lambda>sum entity. sum + num_or (affinity entity) 0) 0 entities
            in total / real (length entities)))"

section \<open>Cross-Domain Connector: pure steps\<close>

record SurpriseConnection =
  fromInterest :: string
  toRecommendation :: QlooEntity
  connectionStrength :: real
  explanation :: string

text \<open>
  The record pushed for a kept pair; \<open>a\<close> is \<^verbatim>\<open>targetEntity.affinity\<close>, which the
  guard has found present.
\<close>

definition mkConnection :: "QlooEntity \<Rightarrow> QlooEntity \<Rightarrow> real \<Rightarrow> SurpriseConnection" where
  "mkConnection userEntity targetEntity a =
     \<lparr> fromInterest = name userEntity,
       toRecommendation = targetEntity,
       connectionStrength = a,
       explanation = ''People who like '' @ name userEntity @ '' often also enjoy ''
                     @ name targetEntity \<rparr>"

text \<open>
  The inner \<^verbatim>\<open>for\<close> loop, pushing onto \<^verbatim>\<open>connections\<close>. The condition
  \<^verbatim>\<open>targetEntity.affinity && targetEntity.affinity > 0.7\<close> holds when the affinity is
  present, truthy (not \<^verbatim>\<open>0\<close>) and above the threshold.
\<close>

fun surpriseInner ::
  "QlooEntity \<Rightarrow> QlooEntity list \<Rightarrow> SurpriseConnection list \<Rightarrow> SurpriseConnection list" where
  "surpriseInner userEntity [] connections = connections"
| "surpriseInner userEntity (targetEntity # rest) connections =
     (case affinity targetEntity of
        None \<Rightarrow> surpriseInner userEntity rest connections
      | Some a \<Rightarrow>
          if a \<noteq> 0 \<and> a > 7 / 10
          then surpriseInner userEntity rest
                 (connections @ [mkConnection userEntity targetEntity a])
          else surpriseInner userEntity rest connections)"

text \<open>The outer \<^verbatim>\<open>for\<close> loop.\<close>

fun surpriseOuter ::
  "QlooEntity list \<Rightarrow> QlooEntity list \<Rightarrow> SurpriseConnection list \<Rightarrow> SurpriseConnection list" where
  "surpriseOuter [] targets connections = connections"
| "surpriseOuter (userEntity # rest) targets connections =
     surpriseOuter rest targets (surpriseInner userEntity targets connections)"

text \<open>
  \<^verbatim>\<open>connections.sort((a, b) => b.connectionStrength - a.connectionStrength)\<close>:
  \<^verbatim>\<open>Array.prototype.sort\<close> is stable, and the comparator orders by descending
  strength, so the result is the stable sort on the negated strength.
\<close>

definition sortByStrengthDesc :: "SurpriseConnection list \<Rightarrow> SurpriseConnection list" where
  "sortByStrengthDesc connections = sort_key (\<lambda>c. - connectionStrength c) connections"

text \<open>\<^verbatim>\<open>CrossDomainDiscoveryEngine.findSurpriseConnections\<close>; it makes no upstream call.\<close>

definition findSurpriseConnections ::
  "QlooEntity list \<Rightarrow> QlooEntity list \<Rightarrow> ProjectContext \<Rightarrow> SurpriseConnection list" where
  "findSurpriseConnections userEntities targetEntities context =
     sortByStrengthDesc
       (surpriseOuter (slice0 3 userEntities) (slice0 5 targetEntities) [])"

section \<open>The Gateway as seen by the orchestrators\<close>

text \<open>
  The option objects of \<^verbatim>\<open>QlooClient.searchEntities\<close> and \<^verbatim>\<open>QlooClient.getInsights\<close>.
  A field the caller leaves out is \<open>None\<close>. Field names carry the name of their object
  where two objects share a name. The filter type is declared a string; the discovery
  engine reads it from a table, so it is what a table read can give.
\<close>

record SearchOptions =
  search_location :: "string option"
  search_radius :: "real option"
  search_take :: "nat option"
  search_page :: "nat option"

record Demographics =
  age :: "string option"
  gender :: "string option"
  audiences :: "string list option"

record LocationSignal =
  query :: "string option"
  coordinates :: "string option"
  radius :: "real option"

record Signals =
  sig_entities :: "string list option"
  sig_tags :: "string list option"
  sig_demographics :: "Demographics option"
  sig_location :: "LocationSignal option"

record Range =
  range_min :: "real option"
  range_max :: "real option"

record Filters =
  flt_location :: "string option"
  flt_tags :: "string list option"
  flt_priceLevel :: "Range option"
  flt_popularity :: "Range option"
  flt_rating :: "Range option"

record InsightOptions =
  filterType :: "string member"
  signals :: "Signals option"
  filters :: "Filters option"
  ins_take :: "nat option"
  ins_page :: "nat option"
  explainability :: "bool option"

text \<open>\<^verbatim>\<open>interface QlooInsightResponse\<close>; the parts no caller reads stay JSON.\<close>

record QlooInsightResponse =
  results :: "QlooEntity list"
  query_info :: "json option"
  pagination :: "json option"

text \<open>\<^verbatim>\<open>interface UserTasteProfile\<close>.\<close>

record Preferences =
  priceLevel :: "Range option"
  popularity :: "Range option"

record UserTasteProfile =
  interests :: "string list"
  demographics :: "Demographics option"
  location :: "LocationSignal option"
  preferences :: "Preferences option"

text \<open>
  What a call can throw: \<^verbatim>\<open>makeRequest\<close> throws on a response that is not 2xx and
  rethrows a failure of \<^verbatim>\<open>fetch\<close> or of \<^verbatim>\<open>response.json()\<close>; reading a property
  of \<^verbatim>\<open>null\<close> is a \<^verbatim>\<open>TypeError\<close>.
\<close>

datatype error =
    HttpError nat string string
  | NetworkError string
  | SyntaxError string
  | TypeError string

text \<open>
  The orchestrators reach the upstream service only through the methods of the client.
  Every call is recorded, with its arguments and its outcome, in a trace; the outcome of a
  call may depend on everything that happened before it, so the client is a pair of
  functions of the trace so far and the arguments. The comparison and trending methods
  have events of their own, which no orchestrator of this file ever emits.
\<close>

datatype event =
    Search string "string list option" SearchOptions "error + QlooEntity list"
  | Insight InsightOptions "error + QlooInsightResponse"
  | Compare "string list" "string list"
  | Trending string

record Qloo =
  searchEntities ::
    "event list \<Rightarrow> string \<Rightarrow> string list option \<Rightarrow> SearchOptions \<Rightarrow> error + QlooEntity list"
  getInsights :: "event list \<Rightarrow> InsightOptions \<Rightarrow> error + QlooInsightResponse"

text \<open>An asynchronous method: from the trace so far to its outcome and the trace after it.\<close>

type_synonym 'a io = "event list \<Rightarrow> (error + 'a) \<times> event list"

definition callSearch ::
  "Qloo \<Rightarrow> string \<Rightarrow> string list option \<Rightarrow> SearchOptions \<Rightarrow> QlooEntity list io" where
  "callSearch qloo q types opts tr =
     (let r = searchEntities qloo tr q types opts in (r, tr @ [Search q types opts r]))"

definition callInsights :: "Qloo \<Rightarrow> InsightOptions \<Rightarrow> QlooInsightResponse io" where
  "callInsights qloo opts tr =
     (let r = getInsights qloo tr opts in (r, tr @ [Insight opts r]))"

text \<open>The option objects the callers write, every other field left out.\<close>

definition takeOnly :: "nat \<Rightarrow> SearchOptions" where
  "takeOnly n =
     \<lparr> search_location = None, search_radius = None, search_take = Some n, search_page = None \<rparr>"

definition noSignals :: Signals where
  "noSignals =
     \<lparr> sig_entities = None, sig_tags = None, sig_demographics = None, sig_location = None \<rparr>"

definition queryLocation :: "string \<Rightarrow> LocationSignal" where
  "queryLocation q = \<lparr> query = Some q, coordinates = None, radius = None \<rparr>"

section \<open>Cultural Goal Architect\<close>

text \<open>
  \<^verbatim>\<open>resolveUserInterests\<close>: one search per interest, \<^verbatim>\<open>{ take: 5 }\<close>, the results
  pushed onto \<^verbatim>\<open>resolvedEntities\<close>; a search that throws ends the loop.
\<close>

fun resolveUserInterestsLoop :: "Qloo \<Rightarrow> string list \<Rightarrow> QlooEntity list \<Rightarrow> QlooEntity list io" where
  "resolveUserInterestsLoop qloo [] resolvedEntities tr = (Inr resolvedEntities, tr)"
| "resolveUserInterestsLoop qloo (interest # rest) resolvedEntities tr =
     (case callSearch qloo interest None (takeOnly 5) tr of
        (Inl e, tr') \<Rightarrow> (Inl e, tr')
      | (Inr searchResults, tr') \<Rightarrow>
          resolveUserInterestsLoop qloo rest (resolvedEntities @ searchResults) tr')"

definition resolveUserInterests :: "Qloo \<Rightarrow> string list \<Rightarrow> QlooEntity list io" where
  "resolveUserInterests qloo interests' = resolveUserInterestsLoop qloo interests' []"

text \<open>
  \<^verbatim>\<open>getGoalRelevantEntities\<close>. The table is read with the goal category as key. Its
  own values are arrays, which are truthy; an inherited value is truthy too, so it is
  taken as \<^verbatim>\<open>relevantTypes\<close>, and \<^verbatim>\<open>for (... of relevantTypes)\<close> then throws
  a \<^verbatim>\<open>TypeError\<close> before any search is made.
\<close>

definition goalEntityMapping :: "(string \<times> string list) list" where
  "goalEntityMapping =
     [(''fitness'', [PLACE, BRAND, BOOK]),
      (''business'', [BRAND, BOOK, PERSON]),
      (''travel'', [DESTINATION, PLACE, BOOK]),
      (''learning'', [BOOK, PODCAST, PERSON]),
      (''creative'', [ARTIST, BOOK, MOVIE]),
      (''social'', [PLACE, BRAND, DESTINATION])]"

fun goalEntitiesLoop :: "Qloo \<Rightarrow> string \<Rightarrow> string list \<Rightarrow> QlooEntity list \<Rightarrow> QlooEntity list io" where
  "goalEntitiesLoop qloo goal [] entities tr = (Inr entities, tr)"
| "goalEntitiesLoop qloo goal (entityType # rest) entities tr =
     (case callSearch qloo goal (Some [entityType]) (takeOnly 10) tr of
        (Inl e, tr') \<Rightarrow> (Inl e, tr')
      | (Inr results', tr') \<Rightarrow> goalEntitiesLoop qloo goal rest (entities @ results') tr')"

definition getGoalRelevantEntities :: "Qloo \<Rightarrow> string \<Rightarrow> ProjectContext \<Rightarrow> QlooEntity list io" where
  "getGoalRelevantEntities qloo goal context =
     (case readTable goalEntityMapping (goalCategory context) of
        None \<Rightarrow> goalEntitiesLoop qloo goal [PLACE] []
      | Some (Own relevantTypes) \<Rightarrow> goalEntitiesLoop qloo goal relevantTypes []
      | Some (Inherited k) \<Rightarrow> (\<lambda>tr. (Inl (TypeError ''relevantTypes is not iterable''), tr)))"

text \<open>\<^verbatim>\<open>findCrossDomainConnections\<close>; the fields \<^verbatim>\<open>from\<close> and \<^verbatim>\<open>to\<close> are suffixed.\<close>

record CrossDomainConnection =
  from_domain :: string
  to_domain :: string
  connection :: "QlooEntity list"
  strength :: real

definition findCrossDomainConnections ::
  "Qloo \<Rightarrow> QlooEntity list \<Rightarrow> QlooEntity list \<Rightarrow> ProjectContext \<Rightarrow> CrossDomainConnection list io" where
  "findCrossDomainConnections qloo userEntities goalEntities context tr =
     (let connections = [] in
      if length userEntities > 0 \<and> length goalEntities > 0
      then (Inr (connections @
                 [\<lparr> from_domain = ''user_interests'',
                    to_domain = ''goal_domain'',
                    connection = slice0 5 goalEntities,
                    strength = 8 / 10 \<rparr>]), tr)
      else (Inr connections, tr))"

text \<open>
  \<^verbatim>\<open>generateCulturallyAwareProjects\<close>: for each of the four project types one insight
  query inside a \<^verbatim>\<open>try\<close>; the \<^verbatim>\<open>catch\<close> logs and goes on to the next type.
\<close>

record Project =
  projectName :: string
  culturalAlignment :: "QlooEntity list"
  affinityScore :: real

definition toUpperCase :: "char \<Rightarrow> char" where
  "toUpperCase c =
     (let n = (of_char c :: nat) in if 97 \<le> n \<and> n \<le> 122 then char_of (n - 32) else c)"

definition capitalize :: "string \<Rightarrow> string" where
  "capitalize s = (case s of [] \<Rightarrow> [] | c # cs \<Rightarrow> toUpperCase c # cs)"

definition projectTypes :: "string list" where
  "projectTypes = [''discovery'', ''execution'', ''community'', ''learning'']"

definition projectQuery :: "QlooEntity list \<Rightarrow> ProjectContext \<Rightarrow> InsightOptions" where
  "projectQuery userEntities context =
     \<lparr> filterType = Own PLACE,
       signals = Some (noSignals
         \<lparr> sig_entities := Some (map id_of (slice0 3 userEntities)),
           sig_location :=
             (case userLocation context of
                None \<Rightarrow> None
              | Some l \<Rightarrow> if l = [] then None else Some (queryLocation l)) \<rparr>),
       filters = None,
       ins_take = Some 10,
       ins_page = None,
       explainability = None \<rparr>"

fun projectsLoop ::
  "Qloo \<Rightarrow> QlooEntity list \<Rightarrow> ProjectContext \<Rightarrow> string list \<Rightarrow> Project list \<Rightarrow> Project list io" where
  "projectsLoop qloo userEntities context [] projects tr = (Inr projects, tr)"
| "projectsLoop qloo userEntities context (projectType' # rest) projects tr =
     (case callInsights qloo (projectQuery userEntities context) tr of
        (Inl e, tr') \<Rightarrow> projectsLoop qloo userEntities context rest projects tr'
      | (Inr insights, tr') \<Rightarrow>
          projectsLoop qloo userEntities context rest
            (projects @
             [\<lparr> projectName = capitalize projectType' @ '' Project'',
                culturalAlignment = results insights,
                affinityScore = calculateAverageAffinity (results insights) \<rparr>]) tr')"

definition generateCulturallyAwareProjects ::
  "Qloo \<Rightarrow> string \<Rightarrow> QlooEntity list \<Rightarrow> QlooEntity list \<Rightarrow> ProjectContext \<Rightarrow> Project list io" where
  "generateCulturallyAwareProjects qloo goal userEntities goalEntities context =
     projectsLoop qloo userEntities context projectTypes []"

text \<open>
  \<^verbatim>\<open>enhanceGoalWithCulturalInsights\<close>: the four steps in order; the outer
  \<^verbatim>\<open>catch\<close> logs and rethrows, so an error of a step is the error of the operation.
\<close>

record EnhancedGoal =
  culturalRecommendations :: "QlooEntity list"
  personalizedProjects :: "Project list"
  crossDomainConnections :: "CrossDomainConnection list"

definition enhanceGoalWithCulturalInsights ::
  "Qloo \<Rightarrow> string \<Rightarrow> UserTasteProfile \<Rightarrow> ProjectContext \<Rightarrow> EnhancedGoal io" where
  "enhanceGoalWithCulturalInsights qloo goal userProfile context tr =
     (case resolveUserInterests qloo (interests userProfile) tr of
        (Inl e, tr1) \<Rightarrow> (Inl e, tr1)
      | (Inr userEntities, tr1) \<Rightarrow>
     (case getGoalRelevantEntities qloo goal context tr1 of
        (Inl e, tr2) \<Rightarrow> (Inl e, tr2)
      | (Inr goalEntities, tr2) \<Rightarrow>
     (case findCrossDomainConnections qloo userEntities goalEntities context tr2 of
        (Inl e, tr3) \<Rightarrow> (Inl e, tr3)
      | (Inr connections, tr3) \<Rightarrow>
     (case generateCulturallyAwareProjects qloo goal userEntities goalEntities context tr3 of
        (Inl e, tr4) \<Rightarrow> (Inl e, tr4)
      | (Inr projects, tr4) \<Rightarrow>
          (Inr \<lparr> culturalRecommendations = goalEntities,
                 personalizedProjects = projects,
                 crossDomainConnections = connections \<rparr>, tr4)))))"

section \<open>Smart Project Component Generator\<close>

text \<open>
  \<^verbatim>\<open>generateComponentRecommendations\<close> calls its four fetches one after the other
  and only then awaits them together (\<^verbatim>\<open>Promise.all\<close>). A call of an asynchronous
  function runs it up to its first \<^verbatim>\<open>await\<close> of a request, where the request is
  issued; the function goes on when the answer is handed to it. To say so, a fetch is a
  value of \<open>proc\<close>: it has returned, or it awaits an insight query and goes on with the
  outcome of that query.
\<close>

datatype 'a proc =
    Return "error + 'a"
  | Await InsightOptions "error + QlooInsightResponse \<Rightarrow> 'a proc"

text \<open>
  Each of the four fetches wraps its insight queries in \<^verbatim>\<open>try\<close>/\<^verbatim>\<open>catch\<close>. Venues,
  tools and communities make one query and return \<^verbatim>\<open>[]\<close> from the \<^verbatim>\<open>catch\<close>;
  content makes one query per content type, each in a \<^verbatim>\<open>try\<close> of its own, whose
  \<^verbatim>\<open>catch\<close> logs and goes on to the next type.
\<close>

definition venueQuery :: "UserTasteProfile \<Rightarrow> ProjectContext \<Rightarrow> InsightOptions" where
  "venueQuery userProfile context =
     \<lparr> filterType = Own PLACE,
       signals = Some
         \<lparr> sig_entities = Some (slice0 5 (interests userProfile)),
           sig_tags = None,
           sig_demographics = demographics userProfile,
           sig_location = location userProfile \<rparr>,
       filters = Some
         \<lparr> flt_location = userLocation context,
           flt_tags = None,
           flt_priceLevel = (case preferences userProfile of None \<Rightarrow> None | Some p \<Rightarrow> priceLevel p),
           flt_popularity = (case preferences userProfile of None \<Rightarrow> None | Some p \<Rightarrow> popularity p),
           flt_rating = None \<rparr>,
       ins_take = Some 15,
       ins_page = None,
       explainability = None \<rparr>"

definition getVenueRecommendations ::
  "string \<Rightarrow> UserTasteProfile \<Rightarrow> ProjectContext \<Rightarrow> QlooEntity list proc" where
  "getVenueRecommendations projectType' userProfile context =
     Await (venueQuery userProfile context)
       (\<lambda>outcome. case outcome of
           Inl e \<Rightarrow> Return (Inr [])
         | Inr answer \<Rightarrow> Return (Inr (results answer)))"

definition contentQuery :: "string \<Rightarrow> UserTasteProfile \<Rightarrow> InsightOptions" where
  "contentQuery contentType userProfile =
     \<lparr> filterType = Own contentType,
       signals = Some
         \<lparr> sig_entities = Some (slice0 5 (interests userProfile)),
           sig_tags = None,
           sig_demographics = demographics userProfile,
           sig_location = None \<rparr>,
       filters = None,
       ins_take = Some 5,
       ins_page = None,
       explainability = None \<rparr>"

definition contentTypes :: "string list" where
  "contentTypes = [BOOK, PODCAST, MOVIE]"

fun contentLoop :: "UserTasteProfile \<Rightarrow> string list \<Rightarrow> QlooEntity list \<Rightarrow> QlooEntity list proc" where
  "contentLoop userProfile [] allContent = Return (Inr allContent)"
| "contentLoop userProfile (contentType # rest) allContent =
     Await (contentQuery contentType userProfile)
       (\<lambda>outcome. case outcome of
           Inl e \<Rightarrow> contentLoop userProfile rest allContent
         | Inr answer \<Rightarrow> contentLoop userProfile rest (allContent @ results answer))"

definition getContentRecommendations ::
  "string \<Rightarrow> UserTasteProfile \<Rightarrow> QlooEntity list proc" where
  "getContentRecommendations projectType' userProfile =
     contentLoop userProfile contentTypes []"

definition toolQuery :: "UserTasteProfile \<Rightarrow> InsightOptions" where
  "toolQuery userProfile =
     \<lparr> filterType = Own BRAND,
       signals = Some
         \<lparr> sig_entities = Some (slice0 5 (interests userProfile)),
           sig_tags = None,
           sig_demographics = demographics userProfile,
           sig_location = None \<rparr>,
       filters = None,
       ins_take = Some 10,
       ins_page = None,
       explainability = None \<rparr>"

definition getToolRecommendations ::
  "string \<Rightarrow> UserTasteProfile \<Rightarrow> QlooEntity list proc" where
  "getToolRecommendations projectType' userProfile =
     Await (toolQuery userProfile)
       (\<lambda>outcome. case outcome of
           Inl e \<Rightarrow> Return (Inr [])
         | Inr answer \<Rightarrow> Return (Inr (results answer)))"

definition communityQuery :: "UserTasteProfile \<Rightarrow> InsightOptions" where
  "communityQuery userProfile =
     \<lparr> filterType = Own DESTINATION,
       signals = Some
         \<lparr> sig_entities = Some (slice0 5 (interests userProfile)),
           sig_tags = None,
           sig_demographics = None,
           sig_location = location userProfile \<rparr>,
       filters = None,
       ins_take = Some 10,
       ins_page = None,
       explainability = None \<rparr>"

definition getCommunityRecommendations ::
  "string \<Rightarrow> UserTasteProfile \<Rightarrow> ProjectContext \<Rightarrow> QlooEntity list proc" where
  "getCommunityRecommendations projectType' userProfile context =
     Await (communityQuery userProfile)
       (\<lambda>outcome. case outcome of
           Inl e \<Rightarrow> Return (Inr [])
         | Inr answer \<Rightarrow> Return (Inr (results answer)))"

text \<open>
  A fetch that has been called: it has settled, or its request is issued and its
  continuation waits for the outcome. The outcome of a request is what the client gives
  when the request is issued, as a function of the trace so far and the query; the trace
  lists the requests in the order in which they are issued.
\<close>

datatype 'a running =
    Settled "error + 'a"
  | Waiting "error + QlooInsightResponse" "error + QlooInsightResponse \<Rightarrow> 'a proc"

text \<open>Calling a fetch: it runs up to its first request, which is issued.\<close>

fun start :: "Qloo \<Rightarrow> 'a proc \<Rightarrow> event list \<Rightarrow> 'a running \<times> event list" where
  "start qloo (Return r) tr = (Settled r, tr)"
| "start qloo (Await q k) tr =
     (let outcome = getInsights qloo tr q in (Waiting outcome k, tr @ [Insight q outcome]))"

text \<open>A fetch run from some point to its end, each request issued when it is reached.\<close>

primrec run :: "'a proc \<Rightarrow> Qloo \<Rightarrow> event list \<Rightarrow> (error + 'a) \<times> event list" where
  "run (Return r) qloo tr = (r, tr)"
| "run (Await q k) qloo tr =
     (let outcome = getInsights qloo tr q in run (k outcome) qloo (tr @ [Insight q outcome]))"

text \<open>The outcome is handed to a waiting fetch, which runs on to its end.\<close>

fun finish :: "Qloo \<Rightarrow> 'a running \<Rightarrow> event list \<Rightarrow> (error + 'a) \<times> event list" where
  "finish qloo (Settled r) tr = (r, tr)"
| "finish qloo (Waiting outcome k) tr = run (k outcome) qloo tr"

record Components =
  venues :: "QlooEntity list"
  content :: "QlooEntity list"
  tools :: "QlooEntity list"
  communities :: "QlooEntity list"

text \<open>
  \<^verbatim>\<open>Promise.all\<close> rejects when one of the four rejects and otherwise yields their
  results by position.
\<close>

definition promiseAll4 ::
  "error + 'a \<Rightarrow> error + 'a \<Rightarrow> error + 'a \<Rightarrow> error + 'a \<Rightarrow> error + ('a \<times> 'a \<times> 'a \<times> 'a)" where
  "promiseAll4 a b c d =
     (case a of Inl e \<Rightarrow> Inl e | Inr x1 \<Rightarrow>
     (case b of Inl e \<Rightarrow> Inl e | Inr x2 \<Rightarrow>
     (case c of Inl e \<Rightarrow> Inl e | Inr x3 \<Rightarrow>
     (case d of Inl e \<Rightarrow> Inl e | Inr x4 \<Rightarrow> Inr (x1, x2, x3, x4)))))"

text \<open>
  \<^verbatim>\<open>generateComponentRecommendations\<close>: the array literal calls the four fetches in
  order, so the requests for venues, for the first content type, for tools and for
  communities are issued, in that order, before any outcome is handled. Then the outcomes
  are handed over. Only the content fetch issues further requests when it goes on (the
  next content type, each after the outcome of the one before), and a fetch with one
  request returns as soon as it goes on; so the requests that follow are the remaining
  content types in their order, whichever outcome is handled first. The model hands the
  outcomes over in the order of the array.
\<close>

definition generateComponentRecommendations ::
  "Qloo \<Rightarrow> string \<Rightarrow> UserTasteProfile \<Rightarrow> ProjectContext \<Rightarrow> Components io" where
  "generateComponentRecommendations qloo projectType' userProfile context tr =
     (let (p1, tr1) = start qloo (getVenueRecommendations projectType' userProfile context) tr;
          (p2, tr2) = start qloo (getContentRecommendations projectType' userProfile) tr1;
          (p3, tr3) = start qloo (getToolRecommendations projectType' userProfile) tr2;
          (p4, tr4) = start qloo (getCommunityRecommendations projectType' userProfile context) tr3;
          (r1, tr5) = finish qloo p1 tr4;
          (r2, tr6) = finish qloo p2 tr5;
          (r3, tr7) = finish qloo p3 tr6;
          (r4, tr8) = finish qloo p4 tr7
      in (case promiseAll4 r1 r2 r3 r4 of
            Inl e \<Rightarrow> (Inl e, tr8)
          | Inr (venues', content', tools', communities') \<Rightarrow>
              (Inr \<lparr> venues = venues', content = content',
                     tools = tools', communities = communities' \<rparr>, tr8)))"

section \<open>Cross-Domain Discovery Engine\<close>

text \<open>\<^verbatim>\<open>resolveInterests\<close>: as the architect's resolver, with \<^verbatim>\<open>{ take: 3 }\<close>.\<close>

fun resolveInterestsLoop :: "Qloo \<Rightarrow> string list \<Rightarrow> QlooEntity list \<Rightarrow> QlooEntity list io" where
  "resolveInterestsLoop qloo [] entities tr = (Inr entities, tr)"
| "resolveInterestsLoop qloo (interest # rest) entities tr =
     (case callSearch qloo interest None (takeOnly 3) tr of
        (Inl e, tr') \<Rightarrow> (Inl e, tr')
      | (Inr results', tr') \<Rightarrow> resolveInterestsLoop qloo rest (entities @ results') tr')"

definition resolveInterests :: "Qloo \<Rightarrow> string list \<Rightarrow> QlooEntity list io" where
  "resolveInterests qloo interests' = resolveInterestsLoop qloo interests' []"

text \<open>
  \<^verbatim>\<open>getTargetDomainEntities\<close>. The table is read with the domain as key;
  \<^verbatim>\<open>|| ENTITY_TYPES.PLACE\<close> replaces a falsy value, so \<^verbatim>\<open>undefined\<close> and the empty
  string, and keeps an inherited one, which then is the filter type of the query. An
  entity is real when its type is truthy, that is not the empty string, and does not
  start with \<^verbatim>\<open>urn:tag\<close>; it is a tag when its type starts with \<^verbatim>\<open>urn:tag\<close>.
\<close>

definition domainTypeMapping :: "(string \<times> string) list" where
  "domainTypeMapping =
     [(''fitness'', PLACE),
      (''food'', PLACE),
      (''travel'', DESTINATION),
      (''entertainment'', MOVIE),
      (''music'', ARTIST),
      (''business'', PLACE),
      (''creative'', PLACE),
      (''learning'', BOOK)]"

definition targetTypeOf :: "string \<Rightarrow> string member" where
  "targetTypeOf domain =
     (case readTable domainTypeMapping domain of
        None \<Rightarrow> Own PLACE
      | Some (Own t) \<Rightarrow> if t = [] then Own PLACE else Own t
      | Some (Inherited k) \<Rightarrow> Inherited k)"

definition isRealEntity :: "QlooEntity \<Rightarrow> bool" where
  "isRealEntity e = (type e \<noteq> [] \<and> \<not> startsWith (type e) ''urn:tag'')"

definition isTagEntity :: "QlooEntity \<Rightarrow> bool" where
  "isTagEntity e = (type e \<noteq> [] \<and> startsWith (type e) ''urn:tag'')"

definition locationFallbackQuery :: "string member \<Rightarrow> InsightOptions" where
  "locationFallbackQuery targetType =
     \<lparr> filterType = targetType,
       signals = Some (noSignals \<lparr> sig_location := Some (queryLocation ''Brooklyn, NY'') \<rparr>),
       filters = None,
       ins_take = Some 20,
       ins_page = None,
       explainability = None \<rparr>"

definition tagSignalQuery :: "string member \<Rightarrow> string list \<Rightarrow> InsightOptions" where
  "tagSignalQuery targetType tagIds =
     \<lparr> filterType = targetType,
       signals = Some (noSignals \<lparr> sig_tags := Some (slice0 5 tagIds) \<rparr>),
       filters = None,
       ins_take = Some 20,
       ins_page = None,
       explainability = Some True \<rparr>"

definition plainQuery :: "string member \<Rightarrow> InsightOptions" where
  "plainQuery targetType =
     \<lparr> filterType = targetType,
       signals = None,
       filters = None,
       ins_take = Some 20,
       ins_page = None,
       explainability = None \<rparr>"

definition insightResults :: "Qloo \<Rightarrow> InsightOptions \<Rightarrow> QlooEntity list io" where
  "insightResults qloo opts tr =
     (case callInsights qloo opts tr of
        (Inl e, tr') \<Rightarrow> (Inl e, tr')
      | (Inr insights, tr') \<Rightarrow> (Inr (results insights), tr'))"

definition getTargetDomainEntities :: "Qloo \<Rightarrow> string \<Rightarrow> QlooEntity list \<Rightarrow> QlooEntity list io" where
  "getTargetDomainEntities qloo domain userEntities tr =
     (let targetType = targetTypeOf domain;
          realEntities = filter isRealEntity userEntities
      in if length realEntities = 0
         then insightResults qloo (locationFallbackQuery targetType) tr
         else (let tagEntities = filter isTagEntity userEntities;
                   tagIds = map id_of tagEntities
               in if length tagIds > 0
                  then insightResults qloo (tagSignalQuery targetType tagIds) tr
                  else insightResults qloo (plainQuery targetType) tr))"

text \<open>\<^verbatim>\<open>findDomainBridges\<close>: no call is made, one bridge is pushed.\<close>

record DomainBridge =
  domain1 :: string
  domain2 :: string
  bridgeEntities :: "QlooEntity list"
  insights :: "string list"

definition findDomainBridges :: "Qloo \<Rightarrow> string list \<Rightarrow> string \<Rightarrow> DomainBridge list io" where
  "findDomainBridges qloo userInterests targetDomain tr =
     (let bridges = [] in
      (Inr (bridges @
            [\<lparr> domain1 = ''user_interests'',
               domain2 = targetDomain,
               bridgeEntities = [],
               insights =
                 [''Bridge found between '' @ join '', '' userInterests @ '' and ''
                    @ targetDomain @ '' domain'',
                  ''Cultural connections exist across these domains'',
                  ''Consider exploring crossover opportunities''] \<rparr>]), tr))"

text \<open>\<^verbatim>\<open>getTrendingCrossovers\<close>: the type is looked up and not used; no call is made.\<close>

definition getTrendingCrossovers :: "Qloo \<Rightarrow> string \<Rightarrow> QlooEntity list io" where
  "getTrendingCrossovers qloo domain tr = (let entityType = targetTypeOf domain in (Inr [], tr))"

record Discovery =
  surpriseConnections :: "SurpriseConnection list"
  domainBridges :: "DomainBridge list"
  trendingCrossOvers :: "QlooEntity list"

definition discoverUnexpectedConnections ::
  "Qloo \<Rightarrow> string list \<Rightarrow> string \<Rightarrow> ProjectContext \<Rightarrow> Discovery io" where
  "discoverUnexpectedConnections qloo userInterests targetDomain context tr =
     (case resolveInterests qloo userInterests tr of
        (Inl e, tr1) \<Rightarrow> (Inl e, tr1)
      | (Inr userEntities, tr1) \<Rightarrow>
     (case getTargetDomainEntities qloo targetDomain userEntities tr1 of
        (Inl e, tr2) \<Rightarrow> (Inl e, tr2)
      | (Inr targetEntities, tr2) \<Rightarrow>
     (let surprise = findSurpriseConnections userEntities targetEntities context in
     (case findDomainBridges qloo userInterests targetDomain tr2 of
        (Inl e, tr3) \<Rightarrow> (Inl e, tr3)
      | (Inr bridges, tr3) \<Rightarrow>
     (case getTrendingCrossovers qloo targetDomain tr3 of
        (Inl e, tr4) \<Rightarrow> (Inl e, tr4)
      | (Inr trending, tr4) \<Rightarrow>
          (Inr \<lparr> surpriseConnections = surprise,
                 domainBridges = bridges,
                 trendingCrossOvers = trending \<rparr>, tr4))))))"

section \<open>Taste-Graph Gateway: request building\<close>

text \<open>
  A value of the parameter object of \<^verbatim>\<open>makeRequest\<close>: \<^verbatim>\<open>undefined\<close>,
  \<^verbatim>\<open>null\<close>, an array, or anything else, which is a scalar of type \<open>'s\<close> with its
  own \<^verbatim>\<open>toString\<close> (the function \<open>toS\<close> below).
\<close>

datatype 's param =
    PUndefined
  | PNull
  | PScalar 's
  | PArray "'s param list"

text \<open>
  The string of an array element inside \<^verbatim>\<open>Array.prototype.join\<close>: empty for
  \<^verbatim>\<open>undefined\<close> and \<^verbatim>\<open>null\<close>, the element's string otherwise, which for a
  nested array is again its join with commas.
\<close>

fun elementString :: "('s \<Rightarrow> string) \<Rightarrow> 's param \<Rightarrow> string" where
  "elementString toS PUndefined = []"
| "elementString toS PNull = []"
| "elementString toS (PScalar v) = toS v"
| "elementString toS (PArray xs) = join '','' (map (elementString toS) xs)"

definition arrayJoin :: "('s \<Rightarrow> string) \<Rightarrow> 's param list \<Rightarrow> string" where
  "arrayJoin toS xs = join '','' (map (elementString toS) xs)"

text \<open>
  The \<^verbatim>\<open>forEach\<close> over \<^verbatim>\<open>Object.entries(params)\<close>: the entries in their order,
  \<^verbatim>\<open>url.searchParams\<close> as the list of pairs appended so far.
\<close>

fun appendParams ::
  "('s \<Rightarrow> string) \<Rightarrow> (string \<times> 's param) list \<Rightarrow> (string \<times> string) list
     \<Rightarrow> (string \<times> string) list" where
  "appendParams toS [] searchParams = searchParams"
| "appendParams toS ((key, value) # rest) searchParams =
     (case value of
        PUndefined \<Rightarrow> appendParams toS rest searchParams
      | PNull \<Rightarrow> appendParams toS rest searchParams
      | PArray xs \<Rightarrow> appendParams toS rest (searchParams @ [(key, arrayJoin toS xs)])
      | PScalar v \<Rightarrow> appendParams toS rest (searchParams @ [(key, toS v)]))"

text \<open>The query of the URL that \<^verbatim>\<open>makeRequest\<close> fetches; the endpoint brings none.\<close>

definition serializeParams ::
  "('s \<Rightarrow> string) \<Rightarrow> (string \<times> 's param) list \<Rightarrow> (string \<times> string) list" where
  "serializeParams toS params = appendParams toS params []"

text \<open>
  The scalars the client itself puts into parameter objects: strings, booleans and
  whole numbers (\<^verbatim>\<open>take\<close>, \<^verbatim>\<open>page\<close>), with their \<^verbatim>\<open>toString\<close>.
\<close>

datatype scalar = SString string | SBoolean bool | SNumber int

fun digitsOf :: "nat \<Rightarrow> string" where
  "digitsOf n =
     (if n < 10 then [char_of (48 + n)]
      else digitsOf (n div 10) @ [char_of (48 + n mod 10)])"

declare digitsOf.simps [simp del]

definition scalarToString :: "scalar \<Rightarrow> string" where
  "scalarToString v =
     (case v of
        SString s \<Rightarrow> s
      | SBoolean b \<Rightarrow> (if b then ''true'' else ''false'')
      | SNumber i \<Rightarrow> (if i < 0 then ''-'' @ digitsOf (nat (- i)) else digitsOf (nat i)))"

section \<open>Taste-Graph Gateway: response handling\<close>

text \<open>
  A JavaScript value read from the parsed body: a JSON value, or \<open>None\<close> for
  \<^verbatim>\<open>undefined\<close>.
\<close>

type_synonym jsval = "json option"

definition truthy :: "jsval \<Rightarrow> bool" where
  "truthy v =
     (case v of
        None \<Rightarrow> False
      | Some JNull \<Rightarrow> False
      | Some (JBool b) \<Rightarrow> b
      | Some (JNum n) \<Rightarrow> n \<noteq> 0
      | Some (JStr s) \<Rightarrow> s \<noteq> []
      | Some (JArr xs) \<Rightarrow> True
      | Some (JObj kvs) \<Rightarrow> True)"

text \<open>
  \<^verbatim>\<open>v.k\<close> for a value that is neither \<^verbatim>\<open>null\<close> nor \<^verbatim>\<open>undefined\<close> and a key
  \<open>k\<close> among those the client reads (\<^verbatim>\<open>results\<close>, \<^verbatim>\<open>entities\<close>, \<^verbatim>\<open>entity_id\<close>,
  \<^verbatim>\<open>id\<close>, \<^verbatim>\<open>name\<close>, \<^verbatim>\<open>subtype\<close>, \<^verbatim>\<open>type\<close>, \<^verbatim>\<open>query\<close>, \<^verbatim>\<open>affinity\<close>,
  \<^verbatim>\<open>properties\<close>): an object gives the property if it has it, every other value
  gives \<^verbatim>\<open>undefined\<close>. An object lists each key once.
\<close>

definition ownProp :: "json \<Rightarrow> string \<Rightarrow> jsval" where
  "ownProp v k = (case v of JObj kvs \<Rightarrow> map_of kvs k | _ \<Rightarrow> None)"

text \<open>\<^verbatim>\<open>a || b\<close>.\<close>

definition or_js :: "jsval \<Rightarrow> jsval \<Rightarrow> jsval" where
  "or_js a b = (if truthy a then a else b)"

text \<open>\<^verbatim>\<open>v?.k\<close>.\<close>

definition optChain :: "jsval \<Rightarrow> string \<Rightarrow> jsval" where
  "optChain v k = (case v of None \<Rightarrow> None | Some JNull \<Rightarrow> None | Some w \<Rightarrow> ownProp w k)"

text \<open>
  The object literal built for one item of \<^verbatim>\<open>results.entities\<close>. Its fields hold what
  the body holds, whatever its JSON type. Reading \<^verbatim>\<open>item.entity_id\<close> of a
  \<^verbatim>\<open>null\<close> item throws.
\<close>

record RawEntity =
  raw_id :: jsval
  raw_name :: jsval
  raw_type :: jsval
  raw_affinity :: jsval
  raw_properties :: jsval

definition normalizeInsightItem :: "json \<Rightarrow> error + RawEntity" where
  "normalizeInsightItem item =
     (case item of
        JNull \<Rightarrow> Inl (TypeError ''Cannot read properties of null'')
      | _ \<Rightarrow>
          Inr \<lparr> raw_id = or_js (ownProp item ''entity_id'') (ownProp item ''id''),
                raw_name = ownProp item ''name'',
                raw_type = or_js (or_js (ownProp item ''subtype'') (ownProp item ''type''))
                                 (Some (JStr ''unknown'')),
                raw_affinity = or_js (optChain (ownProp item ''query'') ''affinity'')
                                     (ownProp item ''affinity''),
                raw_properties = ownProp item ''properties'' \<rparr>)"

text \<open>\<^verbatim>\<open>items.map(f)\<close> for an \<open>f\<close> that may throw: the first throw ends the map.\<close>

fun mapThrowing :: "('a \<Rightarrow> error + 'b) \<Rightarrow> 'a list \<Rightarrow> error + 'b list" where
  "mapThrowing f [] = Inr []"
| "mapThrowing f (x # xs) =
     (case f x of
        Inl e \<Rightarrow> Inl e
      | Inr y \<Rightarrow> (case mapThrowing f xs of Inl e \<Rightarrow> Inl e | Inr ys \<Rightarrow> Inr (y # ys)))"

text \<open>
  The condition \<^verbatim>\<open>response.results && response.results.entities &&
  Array.isArray(response.results.entities)\<close> for a body that is not \<^verbatim>\<open>null\<close>: the items
  of the nested array when it holds.
\<close>

definition nestedEntities :: "json \<Rightarrow> json list option" where
  "nestedEntities response =
     (case ownProp response ''results'' of
        None \<Rightarrow> None
      | Some r \<Rightarrow>
          if truthy (Some r)
          then (case ownProp r ''entities'' of Some (JArr items) \<Rightarrow> Some items | _ \<Rightarrow> None)
          else None)"

text \<open>
  The tail of \<^verbatim>\<open>getInsights\<close>, from the parsed body to the \<^verbatim>\<open>results\<close> of the object
  it returns. A \<^verbatim>\<open>null\<close> body throws at \<^verbatim>\<open>response.results\<close>. In the other branch
  \<^verbatim>\<open>response.results = []\<close> stores into an object or an array and throws on a boolean,
  a number or a string (module code is strict).
\<close>

definition transformInsights :: "json \<Rightarrow> error + RawEntity list" where
  "transformInsights response =
     (case response of
        JNull \<Rightarrow> Inl (TypeError ''Cannot read properties of null'')
      | _ \<Rightarrow>
          (case nestedEntities response of
             Some items \<Rightarrow> mapThrowing normalizeInsightItem items
           | None \<Rightarrow>
               (case response of
                  JObj kvs \<Rightarrow> Inr []
                | JArr xs \<Rightarrow> Inr []
                | _ \<Rightarrow> Inl (TypeError ''Cannot create property results''))))"

text \<open>
  What \<^verbatim>\<open>fetch\<close> gives \<^verbatim>\<open>makeRequest\<close>: a rejection, or a response with
  \<^verbatim>\<open>ok\<close>, \<^verbatim>\<open>status\<close>, \<^verbatim>\<open>statusText\<close>, the body as text and the body as parsed by
  \<^verbatim>\<open>response.json()\<close> (\<open>None\<close> when it is not JSON).
\<close>

datatype fetched =
    Rejected string
  | Responded bool nat string string "json option"

definition makeRequestOutcome :: "fetched \<Rightarrow> error + json" where
  "makeRequestOutcome f =
     (case f of
        Rejected msg \<Rightarrow> Inl (NetworkError msg)
      | Responded ok status statusText errorBody parsed \<Rightarrow>
          if \<not> ok then Inl (HttpError status statusText errorBody)
          else (case parsed of
                  None \<Rightarrow> Inl (SyntaxError ''Unexpected token'')
                | Some body \<Rightarrow> Inr body))"

definition getInsightsOutcome :: "fetched \<Rightarrow> error + RawEntity list" where
  "getInsightsOutcome f =
     (case makeRequestOutcome f of
        Inl e \<Rightarrow> Inl e
      | Inr response \<Rightarrow> transformInsights response)"

section \<open>Reading a trace\<close>

text \<open>The errors of the searches of a trace, the errors of its insight queries, and the
  answers of its insight queries, each in the order of the calls.\<close>

fun searchErrors :: "event list \<Rightarrow> error list" where
  "searchErrors [] = []"
| "searchErrors (Search q types opts (Inl e) # evs) = e # searchErrors evs"
| "searchErrors (ev # evs) = searchErrors evs"

fun insightErrors :: "event list \<Rightarrow> error list" where
  "insightErrors [] = []"
| "insightErrors (Insight opts (Inl e) # evs) = e # insightErrors evs"
| "insightErrors (ev # evs) = insightErrors evs"

fun insightAnswers :: "event list \<Rightarrow> QlooInsightResponse list" where
  "insightAnswers [] = []"
| "insightAnswers (Insight opts (Inr r) # evs) = r # insightAnswers evs"
| "insightAnswers (ev # evs) = insightAnswers evs"

text \<open>
  What the three search loops (\<^verbatim>\<open>resolveUserInterests\<close>, \<^verbatim>\<open>resolveInterests\<close>,
  \<^verbatim>\<open>getGoalRelevantEntities\<close>) have in common: one search per element of a list of
  arguments, the results appended, the first error ending the loop. Each loop is shown
  equal to an instance of it.
\<close>

fun searchEach ::
  "Qloo \<Rightarrow> (string \<times> string list option \<times> SearchOptions) list \<Rightarrow> QlooEntity list
     \<Rightarrow> QlooEntity list io" where
  "searchEach qloo [] acc tr = (Inr acc, tr)"
| "searchEach qloo ((q, types, opts) # rest) acc tr =
     (case callSearch qloo q types opts tr of
        (Inl e, tr') \<Rightarrow> (Inl e, tr')
      | (Inr found, tr') \<Rightarrow> searchEach qloo rest (acc @ found) tr')"

section \<open>Sample inputs\<close>

text \<open>Entities, a context, a profile and five clients on which the theorems are run.\<close>

definition entity :: "string \<Rightarrow> string \<Rightarrow> real option \<Rightarrow> QlooEntity" where
  "entity i t a = \<lparr> id_of = i, name = i, type = t, affinity = a, properties = None \<rparr>"

definition fitnessContext :: ProjectContext where
  "fitnessContext =
     \<lparr> projectType = ''habit'', goalCategory = ''fitness'', userLocation = None,
       timeframe = None, budget = None \<rparr>"

definition jazzProfile :: UserTasteProfile where
  "jazzProfile =
     \<lparr> interests = [''jazz'', ''coffee''], demographics = None, location = None,
       preferences = None \<rparr>"

definition response :: "QlooEntity list \<Rightarrow> QlooInsightResponse" where
  "response es = \<lparr> results = es, query_info = None, pagination = None \<rparr>"

definition hit :: "InsightOptions \<Rightarrow> QlooEntity" where
  "hit opts =
     entity ''hit'' (case filterType opts of Own t \<Rightarrow> t | Inherited k \<Rightarrow> ''unknown'')
       (Some (9 / 10))"

text \<open>Every search finds one entity named after the query; every insight query finds one
  entity of the type asked for.\<close>

definition echoQloo :: Qloo where
  "echoQloo =
     \<lparr> searchEntities = (\<lambda>tr q types opts. Inr [entity q PLACE None]),
       getInsights = (\<lambda>tr opts. Inr (response [hit opts])) \<rparr>"

text \<open>As \<open>echoQloo\<close>, but every insight query is refused.\<close>

definition insightsDownQloo :: Qloo where
  "insightsDownQloo =
     \<lparr> searchEntities = (\<lambda>tr q types opts. Inr [entity q PLACE None]),
       getInsights = (\<lambda>tr opts. Inl (HttpError 403 ''Forbidden'' [])) \<rparr>"

text \<open>As \<open>echoQloo\<close>, but insight queries for books are refused.\<close>

definition booksDownQloo :: Qloo where
  "booksDownQloo =
     \<lparr> searchEntities = (\<lambda>tr q types opts. Inr [entity q PLACE None]),
       getInsights = (\<lambda>tr opts.
         if filterType opts = Own BOOK then Inl (HttpError 500 ''Internal Server Error'' [])
         else Inr (response [hit opts])) \<rparr>"

text \<open>As \<open>echoQloo\<close>, but the search for \<^verbatim>\<open>coffee\<close> is refused.\<close>

definition coffeeDownQloo :: Qloo where
  "coffeeDownQloo =
     \<lparr> searchEntities = (\<lambda>tr q types opts.
         if q = ''coffee'' then Inl (HttpError 429 ''Too Many Requests'' [])
         else Inr [entity q PLACE None]),
       getInsights = (\<lambda>tr opts. Inr (response [hit opts])) \<rparr>"

text \<open>As \<open>echoQloo\<close>, but the request issued third in a trace is refused.\<close>

definition thirdDownQloo :: Qloo where
  "thirdDownQloo =
     \<lparr> searchEntities = (\<lambda>tr q types opts.
         if length tr = 2 then Inl (HttpError 503 ''Service Unavailable'' [])
         else Inr [entity q PLACE None]),
       getInsights = (\<lambda>tr opts.
         if length tr = 2 then Inl (HttpError 503 ''Service Unavailable'' [])
         else Inr (response [hit opts])) \<rparr>"

section \<open>Lemmas on the JavaScript idioms and on calls\<close>

lemma foldl_add_sum_list:
  "foldl (\<lambda>s x. s + f x) a xs = (a::real) + sum_list (map f xs)"
  by (induction xs arbitrary: a) (simp_all add: algebra_simps)

lemma num_or_zero: "num_or x 0 = (case x of None \<Rightarrow> 0 | Some a \<Rightarrow> a)"
  by (simp add: num_or_def split: option.splits)

lemma callSearch_eq:
  "callSearch qloo q t o' tr =
     (searchEntities qloo tr q t o', tr @ [Search q t o' (searchEntities qloo tr q t o')])"
  by (simp add: callSearch_def Let_def)

lemma callInsights_eq:
  "callInsights qloo opts tr = (getInsights qloo tr opts, tr @ [Insight opts (getInsights qloo tr opts)])"
  by (simp add: callInsights_def Let_def)

lemma insightResults_eq:
  "insightResults qloo q tr =
     (case getInsights qloo tr q of Inl e \<Rightarrow> Inl e | Inr r \<Rightarrow> Inr (results r),
      tr @ [Insight q (getInsights qloo tr q)])"
  by (simp add: insightResults_def callInsights_eq split: sum.splits)

lemma readTable_not_inherited:
  "key \<notin> set objectPrototypeKeys \<Longrightarrow>
   readTable table key = (case map_of table key of Some v \<Rightarrow> Some (Own v) | None \<Rightarrow> None)"
  by (simp add: readTable_def split: option.splits)

lemma contentLoop_continue:
  "(case outcome of
      Inl e \<Rightarrow> contentLoop p rest acc
    | Inr answer \<Rightarrow> contentLoop p rest (acc @ results answer))
   = contentLoop p rest (acc @ (case outcome of Inl e \<Rightarrow> [] | Inr answer \<Rightarrow> results answer))"
  by (cases outcome) simp_all

lemma run_contentLoop_step:
  "run (contentLoop p (t # ts) acc) qloo tr =
     run (contentLoop p ts
            (acc @ (case getInsights qloo tr (contentQuery t p) of
                      Inl e \<Rightarrow> [] | Inr answer \<Rightarrow> results answer)))
         qloo (tr @ [Insight (contentQuery t p) (getInsights qloo tr (contentQuery t p))])"
  by (simp add: Let_def contentLoop_continue)

lemma run_contentLoop_nil: "run (contentLoop p [] acc) qloo tr = (Inr acc, tr)"
  by simp

lemma single_request_returns:
  "run (case outcome of Inl e \<Rightarrow> Return (Inr []) | Inr answer \<Rightarrow> Return (Inr (results answer)))
       qloo tr
   = (Inr (case outcome of Inl e \<Rightarrow> [] | Inr answer \<Rightarrow> results answer), tr)"
  by (cases outcome) simp_all

text \<open>
  A fetch with one request returns as soon as its outcome is handed to it, whatever the
  trace has become by then, and issues nothing more.
\<close>

lemma venue_outcome_any_time:
  "finish qloo (fst (start qloo (getVenueRecommendations pt p c) tr0)) tr
     = (Inr (case getInsights qloo tr0 (venueQuery p c) of Inl e \<Rightarrow> [] | Inr a \<Rightarrow> results a), tr)"
  by (simp add: getVenueRecommendations_def Let_def single_request_returns)

lemma tool_outcome_any_time:
  "finish qloo (fst (start qloo (getToolRecommendations pt p) tr0)) tr
     = (Inr (case getInsights qloo tr0 (toolQuery p) of Inl e \<Rightarrow> [] | Inr a \<Rightarrow> results a), tr)"
  by (simp add: getToolRecommendations_def Let_def single_request_returns)

lemma community_outcome_any_time:
  "finish qloo (fst (start qloo (getCommunityRecommendations pt p c) tr0)) tr
     = (Inr (case getInsights qloo tr0 (communityQuery p) of Inl e \<Rightarrow> [] | Inr a \<Rightarrow> results a), tr)"
  by (simp add: getCommunityRecommendations_def Let_def single_request_returns)

text \<open>What the table of target types gives for an own, an unknown and an inherited key.\<close>

lemma targetTypeOf_examples:
  "targetTypeOf ''business'' = Own PLACE \<and> targetTypeOf ''chess'' = Own PLACE
   \<and> targetTypeOf ''constructor'' = Inherited ''constructor''"
  by (simp add: targetTypeOf_def readTable_def domainTypeMapping_def objectPrototypeKeys_def
      PLACE_def)

section \<open>The search loops\<close>

lemma searchEach_calls:
  "\<exists>ess.
     (fst (searchEach qloo args acc tr) = Inr (acc @ concat ess)
        \<and> length ess = length args
        \<and> snd (searchEach qloo args acc tr)
            = tr @ map2 (\<lambda>(q, t, opts) es. Search q t opts (Inr es)) args ess)
     \<or> (\<exists>e. fst (searchEach qloo args acc tr) = Inl e
        \<and> length ess < length args
        \<and> snd (searchEach qloo args acc tr)
            = tr @ map2 (\<lambda>(q, t, opts) es. Search q t opts (Inr es)) (take (length ess) args) ess
                 @ [(\<lambda>(q, t, opts). Search q t opts (Inl e)) (args ! length ess)])"
proof (induction args arbitrary: acc tr)
  case Nil
  show ?case by simp
next
  case (Cons a args)
  obtain q t opts where a: "a = (q, t, opts)" by (cases a)
  let ?out = "searchEntities qloo tr q t opts"
  show ?case
  proof (cases ?out)
    case (Inl e)
    then have "fst (searchEach qloo (a # args) acc tr) = Inl e"
      and "snd (searchEach qloo (a # args) acc tr) = tr @ [Search q t opts (Inl e)]"
      by (simp_all add: a callSearch_eq)
    then show ?thesis by (intro exI [of _ "[]"]) (simp add: a)
  next
    case (Inr es)
    let ?tr' = "tr @ [Search q t opts (Inr es)]"
    have step: "searchEach qloo (a # args) acc tr = searchEach qloo args (acc @ es) ?tr'"
      using Inr by (simp add: a callSearch_eq)
    from Cons.IH [of "acc @ es" ?tr'] obtain ess where
      ess: "(fst (searchEach qloo args (acc @ es) ?tr') = Inr ((acc @ es) @ concat ess)
        \<and> length ess = length args
        \<and> snd (searchEach qloo args (acc @ es) ?tr')
            = ?tr' @ map2 (\<lambda>(q, t, opts) es. Search q t opts (Inr es)) args ess)
     \<or> (\<exists>e. fst (searchEach qloo args (acc @ es) ?tr') = Inl e
        \<and> length ess < length args
        \<and> snd (searchEach qloo args (acc @ es) ?tr')
            = ?tr' @ map2 (\<lambda>(q, t, opts) es. Search q t opts (Inr es)) (take (length ess) args) ess
                 @ [(\<lambda>(q, t, opts). Search q t opts (Inl e)) (args ! length ess)])"
      by blast
    show ?thesis
      unfolding step using ess by (intro exI [of _ "es # ess"]) (auto simp add: a)
  qed
qed

lemma resolveUserInterestsLoop_searchEach:
  "resolveUserInterestsLoop qloo is acc tr
     = searchEach qloo (map (\<lambda>i. (i, None, takeOnly 5)) is) acc tr"
  by (induction "is" arbitrary: acc tr) (simp_all split: prod.splits sum.splits)

lemma resolveInterestsLoop_searchEach:
  "resolveInterestsLoop qloo is acc tr
     = searchEach qloo (map (\<lambda>i. (i, None, takeOnly 3)) is) acc tr"
  by (induction "is" arbitrary: acc tr) (simp_all split: prod.splits sum.splits)

lemma goalEntitiesLoop_searchEach:
  "goalEntitiesLoop qloo goal ts acc tr
     = searchEach qloo (map (\<lambda>t. (goal, Some [t], takeOnly 10)) ts) acc tr"
  by (induction ts arbitrary: acc tr) (simp_all split: prod.splits sum.splits)

lemma map2_map_left: "map2 f (map g xs) ys = map2 (\<lambda>x y. f (g x) y) xs ys"
  by (induction xs arbitrary: ys) (auto split: list.splits simp: zip_Cons1)

lemma searchEach_same_args:
  "\<exists>ess.
     (fst (searchEach qloo (map (\<lambda>i. (f i, t, opts)) xs) [] tr) = Inr (concat ess)
        \<and> length ess = length xs
        \<and> snd (searchEach qloo (map (\<lambda>i. (f i, t, opts)) xs) [] tr)
            = tr @ map2 (\<lambda>i es. Search (f i) t opts (Inr es)) xs ess)
     \<or> (\<exists>e. fst (searchEach qloo (map (\<lambda>i. (f i, t, opts)) xs) [] tr) = Inl e
        \<and> length ess < length xs
        \<and> snd (searchEach qloo (map (\<lambda>i. (f i, t, opts)) xs) [] tr)
            = tr @ map2 (\<lambda>i es. Search (f i) t opts (Inr es)) (take (length ess) xs) ess
                 @ [Search (f (xs ! length ess)) t opts (Inl e)])"
proof -
  let ?args = "map (\<lambda>i. (f i, t, opts)) xs"
  let ?R = "searchEach qloo ?args [] tr"
  from searchEach_calls [of qloo ?args "[]" tr] obtain ess where
    ess: "(fst ?R = Inr ([] @ concat ess) \<and> length ess = length ?args
        \<and> snd ?R = tr @ map2 (\<lambda>(q, t, opts) es. Search q t opts (Inr es)) ?args ess)
     \<or> (\<exists>e. fst ?R = Inl e \<and> length ess < length ?args
        \<and> snd ?R = tr @ map2 (\<lambda>(q, t, opts) es. Search q t opts (Inr es)) (take (length ess) ?args) ess
                 @ [(\<lambda>(q, t, opts). Search q t opts (Inl e)) (?args ! length ess)])"
    by blast
  from ess show ?thesis
  proof
    assume ok: "fst ?R = Inr ([] @ concat ess) \<and> length ess = length ?args
        \<and> snd ?R = tr @ map2 (\<lambda>(q, t, opts) es. Search q t opts (Inr es)) ?args ess"
    then have "fst ?R = Inr (concat ess)" "length ess = length xs"
      "snd ?R = tr @ map2 (\<lambda>i es. Search (f i) t opts (Inr es)) xs ess"
      by (simp_all add: map2_map_left)
    then show ?thesis by blast
  next
    assume "\<exists>e. fst ?R = Inl e \<and> length ess < length ?args
        \<and> snd ?R = tr @ map2 (\<lambda>(q, t, opts) es. Search q t opts (Inr es)) (take (length ess) ?args) ess
                 @ [(\<lambda>(q, t, opts). Search q t opts (Inl e)) (?args ! length ess)]"
    then obtain e where f1: "fst ?R = Inl e" and f2: "length ess < length xs"
      and f3: "snd ?R = tr @ map2 (\<lambda>(q, t, opts) es. Search q t opts (Inr es)) (take (length ess) ?args) ess
                 @ [(\<lambda>(q, t, opts). Search q t opts (Inl e)) (?args ! length ess)]"
      by auto
    from f3 f2 have "snd ?R = tr @ map2 (\<lambda>i es. Search (f i) t opts (Inr es)) (take (length ess) xs) ess
                 @ [Search (f (xs ! length ess)) t opts (Inl e)]"
      by (simp add: take_map map2_map_left)
    with f1 f2 show ?thesis by blast
  qed
qed

lemma searchErrors_append: "searchErrors (xs @ ys) = searchErrors xs @ searchErrors ys"
  by (induction xs rule: searchErrors.induct) simp_all

lemma insightErrors_append: "insightErrors (xs @ ys) = insightErrors xs @ insightErrors ys"
  by (induction xs rule: insightErrors.induct) simp_all

lemma insightAnswers_append: "insightAnswers (xs @ ys) = insightAnswers xs @ insightAnswers ys"
  by (induction xs rule: insightAnswers.induct) simp_all

lemma searchEach_trace:
  "\<exists>new. snd (searchEach qloo args acc tr) = tr @ new
     \<and> insightAnswers new = [] \<and> insightErrors new = []
     \<and> (case fst (searchEach qloo args acc tr) of
          Inl e \<Rightarrow> searchErrors new = [e]
        | Inr es \<Rightarrow> searchErrors new = [])"
proof (induction args arbitrary: acc tr)
  case Nil
  show ?case by simp
next
  case (Cons a args)
  obtain q t opts where a: "a = (q, t, opts)" by (cases a)
  show ?case
  proof (cases "searchEntities qloo tr q t opts")
    case (Inl e)
    then have "searchEach qloo (a # args) acc tr = (Inl e, tr @ [Search q t opts (Inl e)])"
      by (simp add: a callSearch_eq)
    then show ?thesis by (intro exI [of _ "[Search q t opts (Inl e)]"]) simp
  next
    case (Inr es)
    let ?tr' = "tr @ [Search q t opts (Inr es)]"
    have step: "searchEach qloo (a # args) acc tr = searchEach qloo args (acc @ es) ?tr'"
      using Inr by (simp add: a callSearch_eq)
    from Cons.IH [of "acc @ es" ?tr'] obtain new where
      new: "snd (searchEach qloo args (acc @ es) ?tr') = ?tr' @ new"
        "insightAnswers new = []" "insightErrors new = []"
        "(case fst (searchEach qloo args (acc @ es) ?tr') of
            Inl e \<Rightarrow> searchErrors new = [e]
          | Inr es \<Rightarrow> searchErrors new = [])"
      by blast
    show ?thesis
      unfolding step using new
      by (intro exI [of _ "Search q t opts (Inr es) # new"]) (simp split: sum.splits)
  qed
qed

lemma findCrossDomainConnections_eq:
  "findCrossDomainConnections qloo userEntities goalEntities context tr =
     (Inr (if userEntities = [] \<or> goalEntities = [] then []
           else [\<lparr> from_domain = ''user_interests'', to_domain = ''goal_domain'',
                    connection = take 5 goalEntities, strength = 8 / 10 \<rparr>]),
      tr)"
  by (simp add: findCrossDomainConnections_def slice0_def)

lemma projectsLoop_trace:
  "\<exists>new ps. projectsLoop qloo us c types acc tr = (Inr (acc @ ps), tr @ new)
     \<and> searchErrors new = []
     \<and> map culturalAlignment ps = map results (insightAnswers new)
     \<and> length (insightAnswers new) + length (insightErrors new) = length types"
proof (induction types arbitrary: acc tr)
  case Nil
  show ?case by simp
next
  case (Cons ty types)
  let ?q = "projectQuery us c"
  show ?case
  proof (cases "getInsights qloo tr ?q")
    case (Inl e)
    let ?tr' = "tr @ [Insight ?q (Inl e)]"
    have step: "projectsLoop qloo us c (ty # types) acc tr = projectsLoop qloo us c types acc ?tr'"
      using Inl by (simp add: callInsights_eq)
    from Cons.IH [of acc ?tr'] obtain new ps where
      "projectsLoop qloo us c types acc ?tr' = (Inr (acc @ ps), ?tr' @ new)"
      "searchErrors new = []"
      "map culturalAlignment ps = map results (insightAnswers new)"
      "length (insightAnswers new) + length (insightErrors new) = length types"
      by blast
    then show ?thesis
      unfolding step
      by (intro exI [of _ "Insight ?q (Inl e) # new"] exI [of _ ps]) simp
  next
    case (Inr r)
    let ?tr' = "tr @ [Insight ?q (Inr r)]"
    let ?p = "\<lparr> projectName = capitalize ty @ '' Project'', culturalAlignment = results r,
                affinityScore = calculateAverageAffinity (results r) \<rparr>"
    have step: "projectsLoop qloo us c (ty # types) acc tr
                  = projectsLoop qloo us c types (acc @ [?p]) ?tr'"
      using Inr by (simp add: callInsights_eq)
    from Cons.IH [of "acc @ [?p]" ?tr'] obtain new ps where
      "projectsLoop qloo us c types (acc @ [?p]) ?tr' = (Inr ((acc @ [?p]) @ ps), ?tr' @ new)"
      "searchErrors new = []"
      "map culturalAlignment ps = map results (insightAnswers new)"
      "length (insightAnswers new) + length (insightErrors new) = length types"
      by blast
    then show ?thesis
      unfolding step
      by (intro exI [of _ "Insight ?q (Inr r) # new"] exI [of _ "?p # ps"]) simp
  qed
qed

lemma getGoalRelevantEntities_trace:
  assumes "goalCategory context \<notin> set objectPrototypeKeys"
  shows "\<exists>new. snd (getGoalRelevantEntities qloo goal context tr) = tr @ new
     \<and> insightAnswers new = [] \<and> insightErrors new = []
     \<and> (case fst (getGoalRelevantEntities qloo goal context tr) of
          Inl e \<Rightarrow> searchErrors new = [e]
        | Inr es \<Rightarrow> searchErrors new = [])"
proof (cases "map_of goalEntityMapping (goalCategory context)")
  case None
  then have "getGoalRelevantEntities qloo goal context tr
      = searchEach qloo (map (\<lambda>t. (goal, Some [t], takeOnly 10)) [PLACE]) [] tr"
    using assms
    by (simp add: getGoalRelevantEntities_def readTable_not_inherited
        goalEntitiesLoop_searchEach)
  then show ?thesis
    using searchEach_trace [of qloo "map (\<lambda>t. (goal, Some [t], takeOnly 10)) [PLACE]" "[]" tr]
    by simp
next
  case (Some ts)
  then have "getGoalRelevantEntities qloo goal context tr
      = searchEach qloo (map (\<lambda>t. (goal, Some [t], takeOnly 10)) ts) [] tr"
    using assms
    by (simp add: getGoalRelevantEntities_def readTable_not_inherited
        goalEntitiesLoop_searchEach)
  then show ?thesis
    using searchEach_trace [of qloo "map (\<lambda>t. (goal, Some [t], takeOnly 10)) ts" "[]" tr]
    by simp
qed

lemma getGoalRelevantEntities_inherited_key:
  assumes "goalCategory context \<in> set objectPrototypeKeys"
  shows "getGoalRelevantEntities qloo goal context tr
           = (Inl (TypeError ''relevantTypes is not iterable''), tr)"
proof -
  have "map_of goalEntityMapping (goalCategory context) = None"
    using assms by (auto simp add: objectPrototypeKeys_def goalEntityMapping_def)
  then show ?thesis
    using assms by (simp add: getGoalRelevantEntities_def readTable_def)
qed

text \<open>
  With the goal category \<^verbatim>\<open>constructor\<close> the interests are resolved, then the
  \<^verbatim>\<open>TypeError\<close> ends the operation though no search has failed.
\<close>

lemma goal_inherited_example:
  "enhanceGoalWithCulturalInsights echoQloo ''run'' jazzProfile
     (fitnessContext \<lparr> goalCategory := ''constructor'' \<rparr>) []
   = (Inl (TypeError ''relevantTypes is not iterable''),
      [Search ''jazz'' None (takeOnly 5) (Inr [entity ''jazz'' PLACE None]),
       Search ''coffee'' None (takeOnly 5) (Inr [entity ''coffee'' PLACE None])])"
  by (simp add: enhanceGoalWithCulturalInsights_def resolveUserInterests_def callSearch_eq
      echoQloo_def jazzProfile_def fitnessContext_def getGoalRelevantEntities_def readTable_def
      goalEntityMapping_def objectPrototypeKeys_def)

section \<open>Surprise connections and parameters\<close>

lemma surpriseInner_append:
  "surpriseInner u ts acc =
     acc @ List.map_filter
       (\<lambda>t. case affinity t of
              None \<Rightarrow> None
            | Some a \<Rightarrow> if a > 7 / 10 then Some (mkConnection u t a) else None) ts"
proof (induction ts arbitrary: acc)
  case Nil
  show ?case by simp
next
  case (Cons t ts)
  show ?case
  proof (cases "affinity t")
    case None
    then show ?thesis using Cons.IH by simp
  next
    case (Some a)
    then show ?thesis using Cons.IH by auto
  qed
qed

lemma surpriseOuter_append:
  "surpriseOuter us ts acc =
     acc @ concat (map (\<lambda>u. List.map_filter
       (\<lambda>t. case affinity t of
              None \<Rightarrow> None
            | Some a \<Rightarrow> if a > 7 / 10 then Some (mkConnection u t a) else None) ts) us)"
  by (induction us arbitrary: acc) (simp_all add: surpriseInner_append)

lemma sorted_desc_sort_key:
  "sorted_wrt (\<lambda>a b. connectionStrength a \<ge> connectionStrength b)
     (sort_key (\<lambda>c. - connectionStrength c) cs)"
proof -
  have "sorted (map (\<lambda>c. - connectionStrength c) (sort_key (\<lambda>c. - connectionStrength c) cs))"
    by (rule sorted_sort_key)
  then show ?thesis
    by (simp add: sorted_map sorted_wrt_iff_nth_less)
qed

lemma appendParams_acc:
  "appendParams toS params sp =
     sp @ List.map_filter
            (\<lambda>(k, v). case v of
                PUndefined \<Rightarrow> None
              | PNull \<Rightarrow> None
              | PScalar s \<Rightarrow> Some (k, toS s)
              | PArray xs \<Rightarrow> Some (k, arrayJoin toS xs)) params"
proof (induction params arbitrary: sp)
  case Nil
  show ?case by simp
next
  case (Cons kv params)
  obtain k v where kv: "kv = (k, v)" by (cases kv)
  show ?case unfolding kv using Cons.IH by (cases v) simp_all
qed

lemma map_fst_map_filter_sub:
  "distinct (map fst params) \<Longrightarrow>
   (\<And>k v p. f (k, v) = Some p \<Longrightarrow> fst p = k) \<Longrightarrow>
   distinct (map fst (List.map_filter f params))"
proof (induction params)
  case Nil
  show ?case by simp
next
  case (Cons kv params)
  obtain k v where kv: "kv = (k, v)" by (cases kv)
  have IH: "distinct (map fst (List.map_filter f params))"
    using Cons by simp
  have sub: "fst ` set (List.map_filter f params) \<subseteq> fst ` set params"
    using Cons.prems(2) by (force simp add: map_filter_def)
  show ?case
  proof (cases "f kv")
    case None
    then show ?thesis using IH by simp
  next
    case (Some p)
    then have "fst p = k" using Cons.prems(2) kv by simp
    moreover have "k \<notin> fst ` set params" using Cons.prems(1) kv by simp
    ultimately show ?thesis using Some IH sub by auto
  qed
qed

section \<open>Response handling of the insights endpoint\<close>

lemma transformInsights_object_without_entities:
  "nestedEntities (JObj kvs) = None \<Longrightarrow> transformInsights (JObj kvs) = Inr []"
  by (simp add: transformInsights_def)

lemma transformInsights_nested:
  "nestedEntities (JObj kvs) = Some items \<Longrightarrow>
   transformInsights (JObj kvs) = mapThrowing normalizeInsightItem items"
  by (simp add: transformInsights_def)

lemma normalizeInsightItem_object:
  "normalizeInsightItem (JObj kvs) =
     Inr \<lparr> raw_id = or_js (map_of kvs ''entity_id'') (map_of kvs ''id''),
           raw_name = map_of kvs ''name'',
           raw_type = or_js (or_js (map_of kvs ''subtype'') (map_of kvs ''type''))
                            (Some (JStr ''unknown'')),
           raw_affinity = or_js (optChain (map_of kvs ''query'') ''affinity'')
                                (map_of kvs ''affinity''),
           raw_properties = map_of kvs ''properties'' \<rparr>"
  by (simp add: normalizeInsightItem_def ownProp_def)

section \<open>The claims\<close>

text \<open>
  Claim C1. The entities that retrieval receives are those that interest resolution
  returns; the client gives each of them a type that is not empty (a search result
  without a type gets \<open>unknown\<close>). For every such list and every target domain,
  retrieval makes exactly one insight query, for the type mapped from the domain, chosen
  by this rule, where an entity is real when its type does not start with \<open>urn:tag\<close>
  and a tag when it does. With no real entity the query carries only the location signal
  \<open>Brooklyn, NY\<close>; otherwise, with at least one tag, it carries the ids of the first
  at most 5 tags as tag signals and asks for explainability; otherwise it carries no
  signals. The outcome of that query is the outcome of the retrieval, so the same input
  always selects the same tier.
\<close>

theorem getTargetDomainEntities_tier:
  assumes "\<forall>e \<in> set userEntities. type e \<noteq> []"
  shows "getTargetDomainEntities qloo domain userEntities tr =
     (let q =
        (if \<not> (\<exists>e \<in> set userEntities. \<not> prefix ''urn:tag'' (type e))
         then \<lparr> filterType = targetTypeOf domain,
                signals = Some \<lparr> sig_entities = None, sig_tags = None, sig_demographics = None,
                  sig_location = Some \<lparr> query = Some ''Brooklyn, NY'', coordinates = None,
                                         radius = None \<rparr> \<rparr>,
                filters = None, ins_take = Some 20, ins_page = None, explainability = None \<rparr>
         else if (\<exists>e \<in> set userEntities. prefix ''urn:tag'' (type e))
         then \<lparr> filterType = targetTypeOf domain,
                signals = Some \<lparr> sig_entities = None,
                  sig_tags = Some (take 5 (map id_of
                     (filter (\<lambda>e. prefix ''urn:tag'' (type e)) userEntities))),
                  sig_demographics = None, sig_location = None \<rparr>,
                filters = None, ins_take = Some 20, ins_page = None,
                explainability = Some True \<rparr>
         else \<lparr> filterType = targetTypeOf domain, signals = None,
                filters = None, ins_take = Some 20, ins_page = None, explainability = None \<rparr>);
          out = getInsights qloo tr q
      in (case out of Inl e \<Rightarrow> Inl e | Inr r \<Rightarrow> Inr (results r), tr @ [Insight q out]))"
proof -
  have tag: "filter isTagEntity userEntities
               = filter (\<lambda>e. prefix ''urn:tag'' (type e)) userEntities"
    by (rule filter_cong) (auto simp add: isTagEntity_def startsWith_def)
  have real: "filter isRealEntity userEntities
               = filter (\<lambda>e. \<not> prefix ''urn:tag'' (type e)) userEntities"
    using assms by (intro filter_cong) (auto simp add: isRealEntity_def startsWith_def)
  show ?thesis
    unfolding getTargetDomainEntities_def tag real Let_def insightResults_eq
      locationFallbackQuery_def tagSignalQuery_def plainQuery_def noSignals_def
      queryLocation_def slice0_def
    by (auto simp add: filter_empty_conv)
qed

theorem getTargetDomainEntities_tier_witness:
  "getTargetDomainEntities echoQloo ''travel''
     [entity ''t1'' ''urn:tag:genre'' None, entity ''e1'' PLACE None,
      entity ''t2'' ''urn:tag:genre'' None, entity ''t3'' ''urn:tag:genre'' None,
      entity ''t4'' ''urn:tag:genre'' None, entity ''t5'' ''urn:tag:genre'' None,
      entity ''t6'' ''urn:tag:genre'' None] []
   = (Inr [entity ''hit'' DESTINATION (Some (9 / 10))],
      [Insight (tagSignalQuery (Own DESTINATION) [''t1'', ''t2'', ''t3'', ''t4'', ''t5''])
         (Inr (response [entity ''hit'' DESTINATION (Some (9 / 10))]))])
   \<and> snd (getTargetDomainEntities echoQloo ''music''
            [entity ''t1'' ''urn:tag:genre'' None] [])
     = [Insight (locationFallbackQuery (Own ARTIST))
          (Inr (response [entity ''hit'' ARTIST (Some (9 / 10))]))]
   \<and> snd (getTargetDomainEntities echoQloo ''chess'' [entity ''e1'' ''unknown'' None] [])
     = [Insight (plainQuery (Own PLACE))
          (Inr (response [entity ''hit'' PLACE (Some (9 / 10))]))]"
proof -
  let ?mixed = "[entity ''t1'' ''urn:tag:genre'' None, entity ''e1'' PLACE None,
      entity ''t2'' ''urn:tag:genre'' None, entity ''t3'' ''urn:tag:genre'' None,
      entity ''t4'' ''urn:tag:genre'' None, entity ''t5'' ''urn:tag:genre'' None,
      entity ''t6'' ''urn:tag:genre'' None]"
  have h1: "\<forall>e \<in> set ?mixed. type e \<noteq> []"
    by (simp add: entity_def PLACE_def)
  have h2: "\<forall>e \<in> set [entity ''t1'' ''urn:tag:genre'' None]. type e \<noteq> []"
    by (simp add: entity_def)
  have h3: "\<forall>e \<in> set [entity ''e1'' ''unknown'' None]. type e \<noteq> []"
    by (simp add: entity_def)
  show ?thesis
    using getTargetDomainEntities_tier [OF h1, of echoQloo "''travel''" "[]"]
      getTargetDomainEntities_tier [OF h2, of echoQloo "''music''" "[]"]
      getTargetDomainEntities_tier [OF h3, of echoQloo "''chess''" "[]"]
    by (simp add: entity_def echoQloo_def hit_def targetTypeOf_def readTable_def
        domainTypeMapping_def objectPrototypeKeys_def
        tagSignalQuery_def locationFallbackQuery_def plainQuery_def noSignals_def
        queryLocation_def slice0_def response_def PLACE_def DESTINATION_def ARTIST_def)
qed

text \<open>
  Claim C2. Surprise-connection scoring pairs the first 3 user entities with the first 5
  target entities, keeps the pairs whose target affinity is above 0.7, emits for each the
  record of the user entity's name, the target entity, its affinity and the templated
  explanation, and returns the emitted records in stable descending order of strength.
  Every returned record is above the threshold and comes from those prefixes.
\<close>

theorem findSurpriseConnections_spec:
  "findSurpriseConnections userEntities targetEntities context =
     sort_key (\<lambda>c. - connectionStrength c)
       (concat (map (\<lambda>u. List.map_filter
          (\<lambda>t. case affinity t of
                 None \<Rightarrow> None
               | Some a \<Rightarrow>
                   if a > 7 / 10
                   then Some \<lparr> fromInterest = name u, toRecommendation = t,
                               connectionStrength = a,
                               explanation = ''People who like '' @ name u
                                 @ '' often also enjoy '' @ name t \<rparr>
                   else None) (take 5 targetEntities)) (take 3 userEntities)))
   \<and> sorted_wrt (\<lambda>a b. connectionStrength a \<ge> connectionStrength b)
        (findSurpriseConnections userEntities targetEntities context)
   \<and> (\<forall>c \<in> set (findSurpriseConnections userEntities targetEntities context).
        connectionStrength c > 7 / 10
        \<and> affinity (toRecommendation c) = Some (connectionStrength c)
        \<and> toRecommendation c \<in> set (take 5 targetEntities)
        \<and> fromInterest c \<in> name ` set (take 3 userEntities))"
proof -
  let ?kept = "\<lambda>u t. case affinity t of
                 None \<Rightarrow> None
               | Some a \<Rightarrow> if a > 7 / 10 then Some (mkConnection u t a) else None"
  let ?emitted = "concat (map (\<lambda>u. List.map_filter (?kept u) (take 5 targetEntities))
                    (take 3 userEntities))"
  have eq: "findSurpriseConnections userEntities targetEntities context =
              sort_key (\<lambda>c. - connectionStrength c) ?emitted"
    by (simp add: findSurpriseConnections_def sortByStrengthDesc_def slice0_def
        surpriseOuter_append)
  have mem: "connectionStrength c > 7 / 10
        \<and> affinity (toRecommendation c) = Some (connectionStrength c)
        \<and> toRecommendation c \<in> set (take 5 targetEntities)
        \<and> fromInterest c \<in> name ` set (take 3 userEntities)"
    if "c \<in> set ?emitted" for c
  proof -
    from that obtain u t where u: "u \<in> set (take 3 userEntities)"
      and t: "t \<in> set (take 5 targetEntities)" and k: "?kept u t = Some c"
      by (auto simp add: map_filter_def)
    from k obtain a where a: "affinity t = Some a" "a > 7 / 10" "c = mkConnection u t a"
      by (auto split: option.splits if_splits)
    with u t show ?thesis by (simp add: mkConnection_def)
  qed
  show ?thesis
  proof (intro conjI)
    show "findSurpriseConnections userEntities targetEntities context =
     sort_key (\<lambda>c. - connectionStrength c)
       (concat (map (\<lambda>u. List.map_filter
          (\<lambda>t. case affinity t of
                 None \<Rightarrow> None
               | Some a \<Rightarrow>
                   if a > 7 / 10
                   then Some \<lparr> fromInterest = name u, toRecommendation = t,
                               connectionStrength = a,
                               explanation = ''People who like '' @ name u
                                 @ '' often also enjoy '' @ name t \<rparr>
                   else None) (take 5 targetEntities)) (take 3 userEntities)))"
      unfolding eq mkConnection_def by (rule refl)
    show "sorted_wrt (\<lambda>a b. connectionStrength a \<ge> connectionStrength b)
        (findSurpriseConnections userEntities targetEntities context)"
      unfolding eq by (rule sorted_desc_sort_key)
    show "\<forall>c \<in> set (findSurpriseConnections userEntities targetEntities context).
        connectionStrength c > 7 / 10
        \<and> affinity (toRecommendation c) = Some (connectionStrength c)
        \<and> toRecommendation c \<in> set (take 5 targetEntities)
        \<and> fromInterest c \<in> name ` set (take 3 userEntities)"
      unfolding eq using mem by simp
  qed
qed

theorem findSurpriseConnections_spec_witness:
  "map (\<lambda>c. (fromInterest c, id_of (toRecommendation c), connectionStrength c))
     (findSurpriseConnections
        [entity ''U1'' PLACE None, entity ''U2'' PLACE None, entity ''U3'' PLACE None,
         entity ''U4'' PLACE None]
        [entity ''T1'' BOOK (Some (9 / 10)), entity ''T2'' BOOK (Some (5 / 10)),
         entity ''T3'' BOOK (Some (75 / 100)), entity ''T4'' BOOK (Some (6 / 10)),
         entity ''T5'' BOOK (Some (8 / 10)), entity ''T6'' BOOK (Some (95 / 100))]
        fitnessContext)
   = [(''U1'', ''T1'', 9 / 10), (''U2'', ''T1'', 9 / 10), (''U3'', ''T1'', 9 / 10),
      (''U1'', ''T5'', 8 / 10), (''U2'', ''T5'', 8 / 10), (''U3'', ''T5'', 8 / 10),
      (''U1'', ''T3'', 75 / 100), (''U2'', ''T3'', 75 / 100), (''U3'', ''T3'', 75 / 100)]"
  using findSurpriseConnections_spec [of
        "[entity ''U1'' PLACE None, entity ''U2'' PLACE None, entity ''U3'' PLACE None,
         entity ''U4'' PLACE None]"
        "[entity ''T1'' BOOK (Some (9 / 10)), entity ''T2'' BOOK (Some (5 / 10)),
         entity ''T3'' BOOK (Some (75 / 100)), entity ''T4'' BOOK (Some (6 / 10)),
         entity ''T5'' BOOK (Some (8 / 10)), entity ''T6'' BOOK (Some (95 / 100))]"
        fitnessContext]
  by (simp add: entity_def)

text \<open>
  Claim C3, amended. For every goal category that is not the name of a property
  inherited from \<open>Object.prototype\<close>: in goal enhancement a failure of an entity search
  (resolving the interests, finding the goal's entities) is the outcome of the whole
  operation; the operation fails exactly when a search failed, with that search's error,
  and then no insight query is made. A failure of one of the four insight queries made
  for the projects is caught: the operation still returns its result, with one project
  per insight query that was answered and none for those that failed.
\<close>

theorem enhanceGoal_failure_policy:
  assumes "goalCategory context \<notin> set objectPrototypeKeys"
  shows "\<exists>new. snd (enhanceGoalWithCulturalInsights qloo goal userProfile context tr) = tr @ new
     \<and> (case fst (enhanceGoalWithCulturalInsights qloo goal userProfile context tr) of
          Inl e \<Rightarrow> searchErrors new = [e] \<and> insightAnswers new = [] \<and> insightErrors new = []
        | Inr r \<Rightarrow>
            searchErrors new = []
            \<and> map culturalAlignment (personalizedProjects r) = map results (insightAnswers new)
            \<and> length (personalizedProjects r) + length (insightErrors new) = 4)"
proof -
  let ?R = "enhanceGoalWithCulturalInsights qloo goal userProfile context tr"
  obtain r1 t1 where s1: "resolveUserInterests qloo (interests userProfile) tr = (r1, t1)"
    by (cases "resolveUserInterests qloo (interests userProfile) tr")
  from searchEach_trace [of qloo "map (\<lambda>i. (i, None, takeOnly 5)) (interests userProfile)" "[]" tr]
  obtain n1 where n1: "t1 = tr @ n1" "insightAnswers n1 = []" "insightErrors n1 = []"
      "(case r1 of Inl e \<Rightarrow> searchErrors n1 = [e] | Inr es \<Rightarrow> searchErrors n1 = [])"
    using s1 by (auto simp add: resolveUserInterests_def resolveUserInterestsLoop_searchEach)
  show ?thesis
  proof (cases r1)
    case (Inl e)
    then have "?R = (Inl e, tr @ n1)"
      using s1 n1(1) by (simp add: enhanceGoalWithCulturalInsights_def)
    then show ?thesis using n1 Inl by (intro exI [of _ n1]) simp
  next
    case us: (Inr userEntities)
    obtain r2 t2 where s2: "getGoalRelevantEntities qloo goal context t1 = (r2, t2)"
      by (cases "getGoalRelevantEntities qloo goal context t1")
    from getGoalRelevantEntities_trace [OF assms, of qloo goal t1]
    obtain n2 where n2: "t2 = t1 @ n2" "insightAnswers n2 = []" "insightErrors n2 = []"
      "(case r2 of Inl e \<Rightarrow> searchErrors n2 = [e] | Inr es \<Rightarrow> searchErrors n2 = [])"
      using s2 by auto
    have se1: "searchErrors n1 = []" using n1(4) us by simp
    show ?thesis
    proof (cases r2)
      case (Inl e)
      then have "?R = (Inl e, tr @ n1 @ n2)"
        using s1 s2 us n1(1) n2(1) by (simp add: enhanceGoalWithCulturalInsights_def)
      then show ?thesis using n1 n2 Inl se1
        by (intro exI [of _ "n1 @ n2"])
           (simp add: searchErrors_append insightAnswers_append insightErrors_append)
    next
      case gs: (Inr goalEntities)
      have se2: "searchErrors n2 = []" using n2(4) gs by simp
      obtain conns where s3:
        "findCrossDomainConnections qloo userEntities goalEntities context t2 = (Inr conns, t2)"
        by (simp add: findCrossDomainConnections_eq)
      from projectsLoop_trace [of qloo userEntities "context" projectTypes "[]" t2]
      obtain n4 ps where n4:
        "generateCulturallyAwareProjects qloo goal userEntities goalEntities context t2
           = (Inr ps, t2 @ n4)"
        "searchErrors n4 = []"
        "map culturalAlignment ps = map results (insightAnswers n4)"
        "length (insightAnswers n4) + length (insightErrors n4) = 4"
        by (auto simp add: generateCulturallyAwareProjects_def projectTypes_def)
      have R: "?R = (Inr \<lparr> culturalRecommendations = goalEntities, personalizedProjects = ps,
                            crossDomainConnections = conns \<rparr>, tr @ n1 @ n2 @ n4)"
        using s1 s2 s3 us gs n1(1) n2(1) n4(1)
        by (simp add: enhanceGoalWithCulturalInsights_def)
      have len: "length ps = length (insightAnswers n4)"
        using n4(3) by (metis length_map)
      show ?thesis
        unfolding R using n1 n2 n4 se1 se2 len
        by (intro exI [of _ "n1 @ n2 @ n4"])
           (simp add: searchErrors_append insightAnswers_append insightErrors_append)
    qed
  qed
qed

theorem enhanceGoal_failure_policy_witness:
  "fst (enhanceGoalWithCulturalInsights coffeeDownQloo ''run'' jazzProfile fitnessContext [])
     = Inl (HttpError 429 ''Too Many Requests'' [])
   \<and> searchErrors
        (snd (enhanceGoalWithCulturalInsights coffeeDownQloo ''run'' jazzProfile
                fitnessContext []))
     = [HttpError 429 ''Too Many Requests'' []]
   \<and> length (snd (enhanceGoalWithCulturalInsights coffeeDownQloo ''run'' jazzProfile
                fitnessContext [])) = 2"
proof -
  have h: "goalCategory fitnessContext \<notin> set objectPrototypeKeys"
    by (simp add: fitnessContext_def objectPrototypeKeys_def)
  show ?thesis
    using enhanceGoal_failure_policy [OF h, of coffeeDownQloo "''run''" jazzProfile "[]"]
    by (simp add: enhanceGoalWithCulturalInsights_def resolveUserInterests_def
        callSearch_eq coffeeDownQloo_def jazzProfile_def)
qed

text \<open>
  The claim as first stated lets every upstream failure abort the operation. With a
  client whose insight queries are all refused the operation returns a result, without
  projects.
\<close>

theorem enhanceGoal_failure_policy_counterexample:
  "fst (enhanceGoalWithCulturalInsights insightsDownQloo ''run'' jazzProfile fitnessContext [])
     = Inr \<lparr> culturalRecommendations =
                [entity ''run'' PLACE None, entity ''run'' PLACE None, entity ''run'' PLACE None],
              personalizedProjects = [],
              crossDomainConnections =
                [\<lparr> from_domain = ''user_interests'', to_domain = ''goal_domain'',
                   connection = [entity ''run'' PLACE None, entity ''run'' PLACE None,
                                 entity ''run'' PLACE None],
                   strength = 8 / 10 \<rparr>] \<rparr>
   \<and> insightErrors
        (snd (enhanceGoalWithCulturalInsights insightsDownQloo ''run'' jazzProfile
                fitnessContext []))
     = [HttpError 403 ''Forbidden'' [], HttpError 403 ''Forbidden'' [],
        HttpError 403 ''Forbidden'' [], HttpError 403 ''Forbidden'' []]"
  by (simp add: enhanceGoalWithCulturalInsights_def resolveUserInterests_def
      getGoalRelevantEntities_def readTable_def generateCulturallyAwareProjects_def
      projectTypes_def findCrossDomainConnections_eq callSearch_eq callInsights_eq
      insightsDownQloo_def jazzProfile_def fitnessContext_def goalEntityMapping_def)

text \<open>
  Claim C4, amended. Interest resolution searches once per interest, in list order, with
  no type filter, until a search fails. When every search succeeds there are exactly as
  many calls as interests and the result is the concatenation of the results in that
  order, nothing removed; when the search for an interest fails, that error is the
  outcome and no later interest is searched. The architect's resolver asks for at most 5
  results per search, the discovery engine's resolver for at most 3.
\<close>

theorem resolvers_calls:
  "(\<exists>ess.
     (fst (resolveUserInterests qloo interests' tr) = Inr (concat ess)
        \<and> length ess = length interests'
        \<and> snd (resolveUserInterests qloo interests' tr)
            = tr @ map2 (\<lambda>i es. Search i None (takeOnly 5) (Inr es)) interests' ess)
     \<or> (\<exists>e. fst (resolveUserInterests qloo interests' tr) = Inl e
        \<and> length ess < length interests'
        \<and> snd (resolveUserInterests qloo interests' tr)
            = tr @ map2 (\<lambda>i es. Search i None (takeOnly 5) (Inr es)) (take (length ess) interests') ess
                 @ [Search (interests' ! length ess) None (takeOnly 5) (Inl e)]))
  \<and> (\<exists>ess.
     (fst (resolveInterests qloo interests' tr) = Inr (concat ess)
        \<and> length ess = length interests'
        \<and> snd (resolveInterests qloo interests' tr)
            = tr @ map2 (\<lambda>i es. Search i None (takeOnly 3) (Inr es)) interests' ess)
     \<or> (\<exists>e. fst (resolveInterests qloo interests' tr) = Inl e
        \<and> length ess < length interests'
        \<and> snd (resolveInterests qloo interests' tr)
            = tr @ map2 (\<lambda>i es. Search i None (takeOnly 3) (Inr es)) (take (length ess) interests') ess
                 @ [Search (interests' ! length ess) None (takeOnly 3) (Inl e)]))"
  unfolding resolveUserInterests_def resolveInterests_def
    resolveUserInterestsLoop_searchEach resolveInterestsLoop_searchEach
  using searchEach_same_args [of qloo "\<lambda>i. i" None "takeOnly 5" interests' tr]
    searchEach_same_args [of qloo "\<lambda>i. i" None "takeOnly 3" interests' tr]
  by blast

theorem resolvers_calls_witness:
  "resolveUserInterests coffeeDownQloo [''jazz'', ''coffee'', ''tea''] []
     = (Inl (HttpError 429 ''Too Many Requests'' []),
        [Search ''jazz'' None (takeOnly 5) (Inr [entity ''jazz'' PLACE None]),
         Search ''coffee'' None (takeOnly 5) (Inl (HttpError 429 ''Too Many Requests'' []))])
   \<and> resolveInterests echoQloo [''jazz'', ''jazz''] []
     = (Inr [entity ''jazz'' PLACE None, entity ''jazz'' PLACE None],
        [Search ''jazz'' None (takeOnly 3) (Inr [entity ''jazz'' PLACE None]),
         Search ''jazz'' None (takeOnly 3) (Inr [entity ''jazz'' PLACE None])])"
  using resolvers_calls [of coffeeDownQloo "[''jazz'', ''coffee'', ''tea'']" "[]"]
    resolvers_calls [of echoQloo "[''jazz'', ''jazz'']" "[]"]
  by (simp add: resolveUserInterests_def resolveInterests_def callSearch_eq echoQloo_def
      coffeeDownQloo_def)

text \<open>
  The claim as first stated bounds every search of interest resolution by 5 results. The
  discovery engine's resolver asks for 3.
\<close>

theorem resolvers_calls_counterexample:
  "snd (resolveInterests echoQloo [''jazz''] [])
     = [Search ''jazz'' None (takeOnly 3) (Inr [entity ''jazz'' PLACE None])]
   \<and> search_take (takeOnly 3) \<noteq> Some 5"
  by (simp add: resolveInterests_def callSearch_eq echoQloo_def takeOnly_def)

text \<open>
  Claim C5. The request builder appends, for the entries of the parameter object in
  order, nothing for a value that is \<open>undefined\<close> or \<open>null\<close>, one pair holding the
  comma-joined elements for an array, and one pair holding \<open>toString\<close> of the value
  otherwise. So \<open>[a, b]\<close> becomes the single value \<open>a,b\<close>, and the keys of the query
  are distinct when the keys of the object are.
\<close>

theorem serializeParams_spec:
  "serializeParams toS params =
     List.map_filter
       (\<lambda>(k, v). case v of
           PUndefined \<Rightarrow> None
         | PNull \<Rightarrow> None
         | PScalar s \<Rightarrow> Some (k, toS s)
         | PArray xs \<Rightarrow> Some (k, join '','' (map (elementString toS) xs))) params
   \<and> serializeParams toS [(key, PArray [PScalar a, PScalar b])] = [(key, toS a @ '','' @ toS b)]
   \<and> (distinct (map fst params) \<longrightarrow> distinct (map fst (serializeParams toS params)))"
proof (intro conjI impI)
  show eq: "serializeParams toS params =
     List.map_filter
       (\<lambda>(k, v). case v of
           PUndefined \<Rightarrow> None
         | PNull \<Rightarrow> None
         | PScalar s \<Rightarrow> Some (k, toS s)
         | PArray xs \<Rightarrow> Some (k, join '','' (map (elementString toS) xs))) params"
    unfolding serializeParams_def appendParams_acc arrayJoin_def by simp
  show "serializeParams toS [(key, PArray [PScalar a, PScalar b])] = [(key, toS a @ '','' @ toS b)]"
    by (simp add: serializeParams_def arrayJoin_def)
  assume d: "distinct (map fst params)"
  show "distinct (map fst (serializeParams toS params))"
    unfolding eq
    by (rule map_fst_map_filter_sub [OF d]) (auto split: param.splits)
qed

theorem serializeParams_spec_witness:
  "distinct (map fst
     [(''filter.type'', PScalar (SString ''urn:entity:place'')),
      (''take'', PScalar (SNumber 20)),
      (''signal.interests.entities'', PArray [PScalar (SString ''a''), PScalar (SString ''b'')]),
      (''signal.location'', PUndefined),
      (''filter.tags'', PNull),
      (''feature.explainability'', PScalar (SBoolean True))])
   \<and> serializeParams scalarToString
     [(''filter.type'', PScalar (SString ''urn:entity:place'')),
      (''take'', PScalar (SNumber 20)),
      (''signal.interests.entities'', PArray [PScalar (SString ''a''), PScalar (SString ''b'')]),
      (''signal.location'', PUndefined),
      (''filter.tags'', PNull),
      (''feature.explainability'', PScalar (SBoolean True))]
   = [(''filter.type'', ''urn:entity:place''),
      (''take'', ''20''),
      (''signal.interests.entities'', ''a,b''),
      (''feature.explainability'', ''true'')]
   \<and> distinct (map fst (serializeParams scalarToString
     [(''filter.type'', PScalar (SString ''urn:entity:place'')),
      (''take'', PScalar (SNumber 20)),
      (''signal.interests.entities'', PArray [PScalar (SString ''a''), PScalar (SString ''b'')]),
      (''signal.location'', PUndefined),
      (''filter.tags'', PNull),
      (''feature.explainability'', PScalar (SBoolean True))]))"
proof -
  let ?ps = "[(''filter.type'', PScalar (SString ''urn:entity:place'')),
      (''take'', PScalar (SNumber 20)),
      (''signal.interests.entities'', PArray [PScalar (SString ''a''), PScalar (SString ''b'')]),
      (''signal.location'', PUndefined),
      (''filter.tags'', PNull),
      (''feature.explainability'', PScalar (SBoolean True))]"
  have d: "distinct (map fst ?ps)" by simp
  have twenty: "digitsOf 20 = ''20''" by code_simp
  have eq: "serializeParams scalarToString ?ps
   = [(''filter.type'', ''urn:entity:place''),
      (''take'', ''20''),
      (''signal.interests.entities'', ''a,b''),
      (''feature.explainability'', ''true'')]"
    using serializeParams_spec [of scalarToString ?ps] twenty
    by (simp add: scalarToString_def)
  from serializeParams_spec [of scalarToString ?ps] d
  have "distinct (map fst (serializeParams scalarToString ?ps))" by blast
  with d eq show ?thesis by blast
qed

text \<open>
  Claim C6. The claim: a 2xx insights response whose body has no nested array at
  \<open>results.entities\<close> yields empty results, never an error. The code at the body
  \<^verbatim>\<open>null\<close>: the body has no nested array, and \<^verbatim>\<open>getInsights\<close> throws a
  \<^verbatim>\<open>TypeError\<close> at \<^verbatim>\<open>response.results\<close>.
\<close>

theorem getInsights_null_body_throws:
  "nestedEntities JNull = None
   \<and> getInsightsOutcome (Responded True 200 ''OK'' ''null'' (Some JNull))
       = Inl (TypeError ''Cannot read properties of null'')"
  by (simp add: getInsightsOutcome_def makeRequestOutcome_def transformInsights_def
      nestedEntities_def ownProp_def)

text \<open>
  Claim C7. Every invocation of the domain-bridge step, whatever the interests, returns
  exactly one bridge, with \<open>domain1 = user_interests\<close>, \<open>domain2\<close> the target domain,
  no bridge entities and exactly three insight strings built from the interests and the
  target domain. The trace is returned as it was: no upstream call is made.
\<close>

theorem findDomainBridges_single:
  "\<exists>b. findDomainBridges qloo userInterests targetDomain tr = (Inr [b], tr)
     \<and> domain1 b = ''user_interests''
     \<and> domain2 b = targetDomain
     \<and> bridgeEntities b = []
     \<and> length (insights b) = 3
     \<and> insights b =
         [''Bridge found between '' @ join '', '' userInterests @ '' and '' @ targetDomain
            @ '' domain'',
          ''Cultural connections exist across these domains'',
          ''Consider exploring crossover opportunities'']"
  by (simp add: findDomainBridges_def)

theorem findDomainBridges_single_witness:
  "findDomainBridges echoQloo [''jazz'', ''coffee''] ''travel'' []
     = (Inr [\<lparr> domain1 = ''user_interests'', domain2 = ''travel'', bridgeEntities = [],
                insights = [''Bridge found between jazz, coffee and travel domain'',
                            ''Cultural connections exist across these domains'',
                            ''Consider exploring crossover opportunities''] \<rparr>], [])"
  using findDomainBridges_single [of echoQloo "[''jazz'', ''coffee'']" "''travel''" "[]"]
  by (simp add: findDomainBridges_def)

text \<open>
  Claim C8. For every list of entities, \<open>calculateAverageAffinity\<close> is the sum over the
  list of the affinity, a missing one counted as 0, divided by the length of the list when
  the list is not empty, and 0 for the empty list; entities with affinities 0.2, 0.8 and
  none average to 1/3.
\<close>

theorem calculateAverageAffinity_mean:
  "calculateAverageAffinity entities =
     (if length entities > 0
      then (\<Sum>e\<leftarrow>entities. case affinity e of None \<Rightarrow> 0 | Some a \<Rightarrow> a) / real (length entities)
      else 0)
   \<and> calculateAverageAffinity
        [\<lparr> id_of = i1, name = n1, type = t1, affinity = Some (2 / 10), properties = p1 \<rparr>,
         \<lparr> id_of = i2, name = n2, type = t2, affinity = Some (8 / 10), properties = p2 \<rparr>,
         \<lparr> id_of = i3, name = n3, type = t3, affinity = None, properties = p3 \<rparr>] = 1 / 3"
  by (simp add: calculateAverageAffinity_def foldl_add_sum_list num_or_zero)

theorem calculateAverageAffinity_mean_witness:
  "calculateAverageAffinity
     [\<lparr> id_of = ''a'', name = ''A'', type = PLACE, affinity = Some (1 / 2), properties = None \<rparr>,
      \<lparr> id_of = ''b'', name = ''B'', type = PLACE, affinity = None, properties = None \<rparr>] = 1 / 4
   \<and> calculateAverageAffinity [] = 0"
  using calculateAverageAffinity_mean [of
     "[\<lparr> id_of = ''a'', name = ''A'', type = PLACE, affinity = Some (1 / 2), properties = None \<rparr>,
       \<lparr> id_of = ''b'', name = ''B'', type = PLACE, affinity = None, properties = None \<rparr>]"]
    calculateAverageAffinity_mean [of "[]"]
  by simp

text \<open>
  Claim C9, amended. Component generation always issues the same six insight queries,
  in this order: venues, books, tools, communities, then podcasts, then movies. It never
  fails and always returns a result with all four categories. Venues, tools and
  communities are the results of their query, or empty when it failed; content is the
  concatenation, in the order books, podcasts, movies, of the results of those of its
  three queries that succeeded. Each category is computed from the outcomes of its own
  queries alone.
\<close>

theorem generateComponentRecommendations_complete:
  "\<exists>o1 o2 o3 o4 o5 o6.
     snd (generateComponentRecommendations qloo projectType' userProfile context tr) =
       tr @ [Insight (venueQuery userProfile context) o1,
             Insight (contentQuery BOOK userProfile) o2,
             Insight (toolQuery userProfile) o3,
             Insight (communityQuery userProfile) o4,
             Insight (contentQuery PODCAST userProfile) o5,
             Insight (contentQuery MOVIE userProfile) o6]
   \<and> fst (generateComponentRecommendations qloo projectType' userProfile context tr) =
       (let got = (\<lambda>out. case out of Inl e \<Rightarrow> [] | Inr r \<Rightarrow> results r)
        in Inr \<lparr> venues = got o1,
                 content = got o2 @ got o5 @ got o6,
                 tools = got o3,
                 communities = got o4 \<rparr>)"
proof -
  define got where
    "got = (\<lambda>out :: error + QlooInsightResponse. case out of Inl e \<Rightarrow> [] | Inr r \<Rightarrow> results r)"
  define o1 where "o1 = getInsights qloo tr (venueQuery userProfile context)"
  define t1 where "t1 = tr @ [Insight (venueQuery userProfile context) o1]"
  define o2 where "o2 = getInsights qloo t1 (contentQuery BOOK userProfile)"
  define t2 where "t2 = t1 @ [Insight (contentQuery BOOK userProfile) o2]"
  define o3 where "o3 = getInsights qloo t2 (toolQuery userProfile)"
  define t3 where "t3 = t2 @ [Insight (toolQuery userProfile) o3]"
  define o4 where "o4 = getInsights qloo t3 (communityQuery userProfile)"
  define t4 where "t4 = t3 @ [Insight (communityQuery userProfile) o4]"
  define o5 where "o5 = getInsights qloo t4 (contentQuery PODCAST userProfile)"
  define t5 where "t5 = t4 @ [Insight (contentQuery PODCAST userProfile) o5]"
  define o6 where "o6 = getInsights qloo t5 (contentQuery MOVIE userProfile)"
  define t6 where "t6 = t5 @ [Insight (contentQuery MOVIE userProfile) o6]"
  define afterBook where
    "afterBook = (\<lambda>outcome :: error + QlooInsightResponse. case outcome of
        Inl e \<Rightarrow> contentLoop userProfile [PODCAST, MOVIE] []
      | Inr answer \<Rightarrow> contentLoop userProfile [PODCAST, MOVIE] ([] @ results answer))"
  define once where
    "once = (\<lambda>outcome :: error + QlooInsightResponse. case outcome of
        Inl e \<Rightarrow> Return (Inr [])
      | Inr answer \<Rightarrow> Return (Inr (results answer)))"
  have s1: "start qloo (getVenueRecommendations projectType' userProfile context) tr
              = (Waiting o1 once, t1)"
    by (simp add: getVenueRecommendations_def Let_def o1_def t1_def once_def)
  have s2: "start qloo (getContentRecommendations projectType' userProfile) t1
              = (Waiting o2 afterBook, t2)"
    unfolding getContentRecommendations_def contentTypes_def afterBook_def o2_def t2_def
    by (subst contentLoop.simps(2)) (simp add: Let_def del: contentLoop.simps)
  have s3: "start qloo (getToolRecommendations projectType' userProfile) t2
              = (Waiting o3 once, t3)"
    by (simp add: getToolRecommendations_def Let_def o3_def t3_def once_def)
  have s4: "start qloo (getCommunityRecommendations projectType' userProfile context) t3
              = (Waiting o4 once, t4)"
    by (simp add: getCommunityRecommendations_def Let_def o4_def t4_def once_def)
  have f1: "finish qloo (Waiting out once) t = (Inr (got out), t)" for out t
    by (simp add: once_def got_def single_request_returns)
  have book: "afterBook o2 = contentLoop userProfile [PODCAST, MOVIE] (got o2)"
    by (simp add: afterBook_def got_def contentLoop_continue del: contentLoop.simps)
  have f2: "finish qloo (Waiting o2 afterBook) t4 = (Inr (got o2 @ got o5 @ got o6), t6)"
    by (simp add: book run_contentLoop_step run_contentLoop_nil got_def o5_def t5_def
        o6_def t6_def
        del: contentLoop.simps run.simps)
  have all: "generateComponentRecommendations qloo projectType' userProfile context tr
    = (Inr \<lparr> venues = got o1, content = got o2 @ got o5 @ got o6,
              tools = got o3, communities = got o4 \<rparr>, t6)"
    unfolding generateComponentRecommendations_def
    by (simp only: s1 s2 s3 s4 f1 f2 Let_def prod.case promiseAll4_def sum.case)
  have tr6: "t6 = tr @ [Insight (venueQuery userProfile context) o1,
             Insight (contentQuery BOOK userProfile) o2,
             Insight (toolQuery userProfile) o3,
             Insight (communityQuery userProfile) o4,
             Insight (contentQuery PODCAST userProfile) o5,
             Insight (contentQuery MOVIE userProfile) o6]"
    unfolding t6_def t5_def t4_def t3_def t2_def t1_def by simp
  have "snd (generateComponentRecommendations qloo projectType' userProfile context tr) =
       tr @ [Insight (venueQuery userProfile context) o1,
             Insight (contentQuery BOOK userProfile) o2,
             Insight (toolQuery userProfile) o3,
             Insight (communityQuery userProfile) o4,
             Insight (contentQuery PODCAST userProfile) o5,
             Insight (contentQuery MOVIE userProfile) o6]
   \<and> fst (generateComponentRecommendations qloo projectType' userProfile context tr) =
       (let got = (\<lambda>out. case out of Inl e \<Rightarrow> [] | Inr r \<Rightarrow> results r)
        in Inr \<lparr> venues = got o1,
                 content = got o2 @ got o5 @ got o6,
                 tools = got o3,
                 communities = got o4 \<rparr>)"
    unfolding all using tr6 by (simp add: got_def Let_def)
  then show ?thesis by blast
qed

theorem generateComponentRecommendations_complete_witness:
  "generateComponentRecommendations thirdDownQloo ''habit'' jazzProfile fitnessContext []
     = (Inr \<lparr> venues = [entity ''hit'' PLACE (Some (9 / 10))],
              content = [entity ''hit'' BOOK (Some (9 / 10)),
                         entity ''hit'' PODCAST (Some (9 / 10)),
                         entity ''hit'' MOVIE (Some (9 / 10))],
              tools = [],
              communities = [entity ''hit'' DESTINATION (Some (9 / 10))] \<rparr>,
        [Insight (venueQuery jazzProfile fitnessContext)
           (Inr (response [entity ''hit'' PLACE (Some (9 / 10))])),
         Insight (contentQuery BOOK jazzProfile)
           (Inr (response [entity ''hit'' BOOK (Some (9 / 10))])),
         Insight (toolQuery jazzProfile) (Inl (HttpError 503 ''Service Unavailable'' [])),
         Insight (communityQuery jazzProfile)
           (Inr (response [entity ''hit'' DESTINATION (Some (9 / 10))])),
         Insight (contentQuery PODCAST jazzProfile)
           (Inr (response [entity ''hit'' PODCAST (Some (9 / 10))])),
         Insight (contentQuery MOVIE jazzProfile)
           (Inr (response [entity ''hit'' MOVIE (Some (9 / 10))]))])"
  using generateComponentRecommendations_complete
          [of thirdDownQloo "''habit''" jazzProfile fitnessContext "[]"]
  by (simp add: generateComponentRecommendations_def getVenueRecommendations_def
      getContentRecommendations_def getToolRecommendations_def getCommunityRecommendations_def
      contentTypes_def promiseAll4_def thirdDownQloo_def hit_def Let_def
      venueQuery_def contentQuery_def toolQuery_def communityQuery_def response_def)

text \<open>
  The claim as first stated empties a category whenever a fetch of that category fails.
  With a client that refuses the query for books only, content still holds the podcasts
  and the movies.
\<close>

theorem generateComponentRecommendations_complete_counterexample:
  "snd (generateComponentRecommendations booksDownQloo ''habit'' jazzProfile fitnessContext []) ! 1
     = Insight (contentQuery BOOK jazzProfile) (Inl (HttpError 500 ''Internal Server Error'' []))
   \<and> fst (generateComponentRecommendations booksDownQloo ''habit'' jazzProfile fitnessContext [])
     = Inr \<lparr> venues = [entity ''hit'' PLACE (Some (9 / 10))],
              content = [entity ''hit'' PODCAST (Some (9 / 10)),
                         entity ''hit'' MOVIE (Some (9 / 10))],
              tools = [entity ''hit'' BRAND (Some (9 / 10))],
              communities = [entity ''hit'' DESTINATION (Some (9 / 10))] \<rparr>"
  by (simp add: generateComponentRecommendations_def getVenueRecommendations_def
      getContentRecommendations_def getToolRecommendations_def getCommunityRecommendations_def
      contentTypes_def promiseAll4_def booksDownQloo_def hit_def Let_def
      venueQuery_def contentQuery_def toolQuery_def communityQuery_def response_def
      BOOK_def PODCAST_def MOVIE_def PLACE_def BRAND_def DESTINATION_def)

text \<open>
  Claim C10. The cross-domain connection step of goal enhancement returns the empty list
  when the user entities or the goal entities are empty, and otherwise exactly one record
  with \<open>from = user_interests\<close>, \<open>to = goal_domain\<close>, the first at most 5 goal
  entities as connection and strength 0.8. The trace is returned as it was: the step makes
  no upstream call, so none to the comparison endpoint.
\<close>

theorem findCrossDomainConnections_synthetic:
  "findCrossDomainConnections qloo userEntities goalEntities context tr =
     (Inr (if userEntities = [] \<or> goalEntities = [] then []
           else [\<lparr> from_domain = ''user_interests'', to_domain = ''goal_domain'',
                    connection = take 5 goalEntities, strength = 8 / 10 \<rparr>]),
      tr)"
  by (simp add: findCrossDomainConnections_def slice0_def)

theorem findCrossDomainConnections_synthetic_witness:
  "findCrossDomainConnections echoQloo [entity ''u'' PLACE None]
     [entity ''g1'' PLACE None, entity ''g2'' PLACE None, entity ''g3'' PLACE None,
      entity ''g4'' PLACE None, entity ''g5'' PLACE None, entity ''g6'' PLACE None]
     fitnessContext []
   = (Inr [\<lparr> from_domain = ''user_interests'', to_domain = ''goal_domain'',
              connection = [entity ''g1'' PLACE None, entity ''g2'' PLACE None,
                            entity ''g3'' PLACE None, entity ''g4'' PLACE None,
                            entity ''g5'' PLACE None],
              strength = 8 / 10 \<rparr>], [])
   \<and> findCrossDomainConnections echoQloo [] [entity ''g1'' PLACE None] fitnessContext []
     = (Inr [], [])"
  using findCrossDomainConnections_synthetic [of echoQloo "[entity ''u'' PLACE None]"
     "[entity ''g1'' PLACE None, entity ''g2'' PLACE None, entity ''g3'' PLACE None,
      entity ''g4'' PLACE None, entity ''g5'' PLACE None, entity ''g6'' PLACE None]"
     fitnessContext "[]"]
    findCrossDomainConnections_synthetic [of echoQloo "[]" "[entity ''g1'' PLACE None]"
     fitnessContext "[]"]
  by simp

end
